theory Spec2Isabelle
  imports Complex_Main
begin

section \<open>Numbers, points and elementary geometry\<close>

text \<open>
  The program computes with JavaScript numbers. They are embedded as \<^typ>\<open>real\<close>: every
  arithmetic operation is the exact one, \<open>Math.cos\<close>, \<open>Math.sin\<close> and \<open>Math.acos\<close> are
  \<^const>\<open>cos\<close>, \<^const>\<open>sin\<close> and \<^const>\<open>arccos\<close>, and \<open>Math.PI\<close> is \<^const>\<open>pi\<close>.
  Rounding, infinities and NaN are outside this model; where the source divides, the
  theorems below assume the divisor is not zero whenever the quotient matters. The
  simulation step is embedded a second time further below, over numbers with infinities
  and NaN, for the property that depends on them.
\<close>

record Point =
  px :: real
  py :: real

text \<open>\<open>Math.hypot(dx, dy)\<close>.\<close>

definition hypot :: "real \<Rightarrow> real \<Rightarrow> real" where
  "hypot dx dy = sqrt (dx * dx + dy * dy)"

text \<open>
  \<open>Math.atan2(dy, dx)\<close>: the angle in \<open>(-pi, pi]\<close> of the vector \<open>(dx, dy)\<close>, and \<open>0\<close> for the
  zero vector.
\<close>

definition atan2 :: "real \<Rightarrow> real \<Rightarrow> real" where
  "atan2 dy dx =
     (if 0 < dx then arctan (dy / dx)
      else if dx < 0 then (if 0 \<le> dy then arctan (dy / dx) + pi else arctan (dy / dx) - pi)
      else if 0 < dy then pi / 2
      else if dy < 0 then - (pi / 2)
      else 0)"

section \<open>Two-bone inverse kinematics\<close>

record IKAngles =
  angle1 :: real
  angle2 :: real

text \<open>
  \<open>solveIK\<close> of the kinematics module. The source reassigns \<open>targetPos\<close>, \<open>dx\<close>, \<open>dy\<close> and
  \<open>dist\<close> (written \<open>d\<close> here) in its too-close branch; \<open>pushTarget\<close> is the new target of
  that branch, and \<open>solveTriangle\<close> is the code after the branch.
\<close>

definition pushTarget :: "Point \<Rightarrow> real \<Rightarrow> real \<Rightarrow> real \<Rightarrow> real \<Rightarrow> Point" where
  "pushTarget rootPos dx dy d minReach =
     (let scale = minReach / d
      in \<lparr>px = px rootPos + dx * scale, py = py rootPos + dy * scale\<rparr>)"

definition solveTriangle :: "real \<Rightarrow> real \<Rightarrow> real \<Rightarrow> real \<Rightarrow> real \<Rightarrow> IKAngles" where
  "solveTriangle dx dy d l1 l2 =
     (let distSq = d * d;
          cosAngle2 = (l1 * l1 + l2 * l2 - distSq) / (2 * l1 * l2);
          angle2_raw = arccos (max (- 1) (min 1 cosAngle2));
          cosAngle1_part = (distSq + l1 * l1 - l2 * l2) / (2 * d * l1);
          angle1_part = arccos (max (- 1) (min 1 cosAngle1_part));
          targetAngle = atan2 dy dx
      in \<lparr>angle1 = targetAngle - angle1_part, angle2 = pi - angle2_raw\<rparr>)"

definition solveIK :: "Point \<Rightarrow> Point \<Rightarrow> real \<Rightarrow> real \<Rightarrow> IKAngles option" where
  "solveIK rootPos targetPos l1 l2 =
     (let dx = px targetPos - px rootPos;
          dy = py targetPos - py rootPos;
          d = hypot dx dy
      in if d < 1 / 10 then None
         else let maxReach = l1 + l2
              in if d > maxReach then Some \<lparr>angle1 = atan2 dy dx, angle2 = 0\<rparr>
                 else let minReach = \<bar>l1 - l2\<bar>;
                          (dx', dy', d') =
                             (if d < minReach
                              then let targetPos' = pushTarget rootPos dx dy d minReach
                                   in (px targetPos' - px rootPos, py targetPos' - py rootPos, minReach)
                              else (dx, dy, d))
                      in Some (solveTriangle dx' dy' d' l1 l2))"

text \<open>Distance between two points, and the end effector of a two-segment limb whose
  second angle is relative to the first segment.\<close>

definition distance :: "Point \<Rightarrow> Point \<Rightarrow> real" where
  "distance a b = hypot (px b - px a) (py b - py a)"

definition getEndPoint :: "Point \<Rightarrow> real \<Rightarrow> real \<Rightarrow> Point" where
  "getEndPoint start a len = \<lparr>px = px start + cos a * len, py = py start + sin a * len\<rparr>"

definition endEffector :: "Point \<Rightarrow> real \<Rightarrow> real \<Rightarrow> IKAngles \<Rightarrow> Point" where
  "endEffector rootPos l1 l2 r =
     getEndPoint (getEndPoint rootPos (angle1 r) l1) (angle1 r + angle2 r) l2"

section \<open>Pose interpolation\<close>

definition lerp :: "real \<Rightarrow> real \<Rightarrow> real \<Rightarrow> real" where
  "lerp a b t = a * (1 - t) + b * t"

definition lerpAngle :: "real \<Rightarrow> real \<Rightarrow> real \<Rightarrow> real" where
  "lerpAngle a b t =
     (let delta = b - a;
          delta' = (if delta > pi then delta - 2 * pi
                    else if delta < - pi then delta + 2 * pi
                    else delta)
      in a + delta' * t)"

text \<open>
  \<open>interpolateRecursive\<close> takes values of any type. \<open>jsval\<close> has the values it tells
  apart: numbers, objects (their own enumerable keys in insertion order), \<open>null\<close>, and
  strings standing for the remaining primitives. The \<open>in\<close> operator of the source raises
  a \<open>TypeError\<close> when its right operand is a primitive.
\<close>

datatype jsval = JNum real | JObj "(string \<times> jsval) list" | JNull | JStr string

datatype error = TypeError

definition startsWith :: "string \<Rightarrow> string \<Rightarrow> bool" where
  "startsWith s p = (take (length p) s = p)"

fun interpolateRecursive :: "jsval \<Rightarrow> jsval \<Rightarrow> real \<Rightarrow> string \<Rightarrow> error + jsval"
  and interpolateFields ::
    "(string \<times> jsval) list \<Rightarrow> jsval \<Rightarrow> real \<Rightarrow> string \<Rightarrow> error + (string \<times> jsval) list"
where
  "interpolateRecursive (JNum a) b t path =
     (case b of
        JNum b' \<Rightarrow>
          Inr (JNum (if startsWith path ''offset.'' then lerp a b' t else lerpAngle a b' t))
      | _ \<Rightarrow> Inr b)"
| "interpolateRecursive (JObj fs) b t path =
     (if b = JNull then Inr b
      else case interpolateFields fs b t path of
             Inl e \<Rightarrow> Inl e
           | Inr rs \<Rightarrow> Inr (JObj rs))"
| "interpolateRecursive JNull b t path = Inr b"
| "interpolateRecursive (JStr v) b t path = Inr b"
| "interpolateFields [] b t path = Inr []"
| "interpolateFields ((k, v) # rest) b t path =
     (case b of
        JObj bs \<Rightarrow>
          (case map_of bs k of
             None \<Rightarrow> interpolateFields rest b t path
           | Some bv \<Rightarrow>
               (case interpolateRecursive v bv t (path @ k @ ''.'') of
                  Inl e \<Rightarrow> Inl e
                | Inr r \<Rightarrow>
                    (case interpolateFields rest b t path of
                       Inl e \<Rightarrow> Inl e
                     | Inr rs \<Rightarrow> Inr ((k, r) # rs))))
      | _ \<Rightarrow> Inl TypeError)"

definition interpolatePoses :: "jsval \<Rightarrow> jsval \<Rightarrow> real \<Rightarrow> error + jsval" where
  "interpolatePoses poseA poseB t = interpolateRecursive poseA poseB t []"

section \<open>Poses, hierarchy and rest angles\<close>

record Limbs =
  shoulder :: real
  elbow :: real
  hand :: real
  hip :: real
  knee :: real
  foot :: real

record PoseData =
  offset :: Point
  torso :: real
  waist :: real
  head :: real
  left :: Limbs
  right :: Limbs

text \<open>A pose as the object the interpolator walks, with the keys in the order in which
  \<open>getDefaultPose\<close> writes them.\<close>

definition limbsJs :: "Limbs \<Rightarrow> jsval" where
  "limbsJs l = JObj [(''shoulder'', JNum (shoulder l)), (''elbow'', JNum (elbow l)),
     (''hand'', JNum (hand l)), (''hip'', JNum (hip l)), (''knee'', JNum (knee l)),
     (''foot'', JNum (foot l))]"

definition poseJs :: "PoseData \<Rightarrow> jsval" where
  "poseJs p = JObj [(''offset'', JObj [(''x'', JNum (px (offset p))), (''y'', JNum (py (offset p)))]),
     (''torso'', JNum (torso p)), (''waist'', JNum (waist p)), (''head'', JNum (head p)),
     (''left'', limbsJs (left p)), (''right'', limbsJs (right p))]"

definition getDefaultPose :: PoseData where
  "getDefaultPose =
     \<lparr>offset = \<lparr>px = 0, py = 0\<rparr>, torso = 0, waist = 0, head = 0,
      left = \<lparr>shoulder = pi / 2, elbow = 0, hand = 0, hip = 0, knee = 0, foot = 0\<rparr>,
      right = \<lparr>shoulder = - (pi / 2), elbow = 0, hand = 0, hip = 0, knee = 0, foot = 0\<rparr>\<rparr>"

text \<open>
  The joint keys of the source are the strings \<open>root\<close>, \<open>torso\<close>, \<open>waist\<close>, \<open>head\<close> and
  \<open>left.shoulder\<close>, ..., \<open>right.foot\<close>; they form the closed set below, \<open>Shoulder SideLeft\<close>
  standing for \<open>left.shoulder\<close>.
\<close>

datatype side = SideLeft | SideRight

datatype joint =
  Root | Torso | Waist | Head
  | Shoulder side | Elbow side | Hand side
  | Hip side | Knee side | Foot side

record HNode =
  parent :: "joint option"
  children :: "joint list"

fun hierarchy :: "joint \<Rightarrow> HNode" where
  "hierarchy Root = \<lparr>parent = None, children = [Torso, Waist]\<rparr>"
| "hierarchy Torso = \<lparr>parent = Some Root, children = [Head, Shoulder SideLeft, Shoulder SideRight]\<rparr>"
| "hierarchy Waist = \<lparr>parent = Some Root, children = [Hip SideLeft, Hip SideRight]\<rparr>"
| "hierarchy Head = \<lparr>parent = Some Torso, children = []\<rparr>"
| "hierarchy (Shoulder s) = \<lparr>parent = Some Torso, children = [Elbow s]\<rparr>"
| "hierarchy (Elbow s) = \<lparr>parent = Some (Shoulder s), children = [Hand s]\<rparr>"
| "hierarchy (Hand s) = \<lparr>parent = Some (Elbow s), children = []\<rparr>"
| "hierarchy (Hip s) = \<lparr>parent = Some Waist, children = [Knee s]\<rparr>"
| "hierarchy (Knee s) = \<lparr>parent = Some (Hip s), children = [Foot s]\<rparr>"
| "hierarchy (Foot s) = \<lparr>parent = Some (Knee s), children = []\<rparr>"

text \<open>\<open>Object.keys(hierarchy)\<close>, in the order of the table.\<close>

definition hierarchyKeys :: "joint list" where
  "hierarchyKeys =
     [Root, Torso, Waist, Head,
      Shoulder SideLeft, Elbow SideLeft, Hand SideLeft,
      Shoulder SideRight, Elbow SideRight, Hand SideRight,
      Hip SideLeft, Knee SideLeft, Foot SideLeft,
      Hip SideRight, Knee SideRight, Foot SideRight]"

fun BASE_ANGLES :: "joint \<Rightarrow> real option" where
  "BASE_ANGLES Root = None"
| "BASE_ANGLES Torso = Some (- (pi / 2))"
| "BASE_ANGLES Waist = Some (pi / 2)"
| "BASE_ANGLES Head = Some 0"
| "BASE_ANGLES (Shoulder SideLeft) = Some (- (pi / 2))"
| "BASE_ANGLES (Shoulder SideRight) = Some (pi / 2)"
| "BASE_ANGLES (Elbow s) = Some 0"
| "BASE_ANGLES (Hand s) = Some 0"
| "BASE_ANGLES (Hip s) = Some 0"
| "BASE_ANGLES (Knee s) = Some 0"
| "BASE_ANGLES (Foot s) = Some 0"

text \<open>\<open>BASE_ANGLES[key] || 0\<close>.\<close>

definition baseAngle :: "joint \<Rightarrow> real" where
  "baseAngle k = (case BASE_ANGLES k of None \<Rightarrow> 0 | Some a \<Rightarrow> a)"

text \<open>\<open>pose[side]\<close>, and the local angle a pose stores under a joint key (\<open>getPrevPoseAngle\<close>
  of the physics module, \<open>0\<close> for a key the pose does not have).\<close>

fun limbs :: "PoseData \<Rightarrow> side \<Rightarrow> Limbs" where
  "limbs pose SideLeft = left pose"
| "limbs pose SideRight = right pose"

fun getPrevPoseAngle :: "PoseData \<Rightarrow> joint \<Rightarrow> real" where
  "getPrevPoseAngle pose Root = 0"
| "getPrevPoseAngle pose Torso = torso pose"
| "getPrevPoseAngle pose Waist = waist pose"
| "getPrevPoseAngle pose Head = head pose"
| "getPrevPoseAngle pose (Shoulder s) = shoulder (limbs pose s)"
| "getPrevPoseAngle pose (Elbow s) = elbow (limbs pose s)"
| "getPrevPoseAngle pose (Hand s) = hand (limbs pose s)"
| "getPrevPoseAngle pose (Hip s) = hip (limbs pose s)"
| "getPrevPoseAngle pose (Knee s) = knee (limbs pose s)"
| "getPrevPoseAngle pose (Foot s) = foot (limbs pose s)"

section \<open>Forward kinematics\<close>

definition W :: real where "W = 800"
definition H :: real where "H = 800"
definition HEAD_SIZE_UNIT :: real where "HEAD_SIZE_UNIT = 105"
definition LIMB_LENGTH :: real where "LIMB_LENGTH = HEAD_SIZE_UNIT * 2"
definition HEAD_SIZE :: real where "HEAD_SIZE = HEAD_SIZE_UNIT * (8 / 10)"
definition TORSO_HEIGHT :: real where "TORSO_HEIGHT = 150"
definition WAIST_HEIGHT :: real where "WAIST_HEIGHT = 75"
definition L_ARM :: real where "L_ARM = LIMB_LENGTH / 2"
definition L_FOREARM :: real where "L_FOREARM = LIMB_LENGTH / 2"
definition L_HAND :: real where "L_HAND = HEAD_SIZE_UNIT * (4 / 10)"
definition L_THIGH :: real where "L_THIGH = 125"
definition L_SHIN :: real where "L_SHIN = 125"
definition L_FOOT :: real where "L_FOOT = HEAD_SIZE_UNIT * (4 / 10)"

record BoneSegment =
  key :: joint
  start :: Point
  endp :: Point
  width :: real
  angle :: real
  shape :: string

text \<open>\<open>joints\<close> is the \<open>jointCache\<close> object: its keys in insertion order, each written once.\<close>

record Skeleton =
  joints :: "(joint \<times> Point) list"
  bones :: "BoneSegment list"

definition storeBone :: "joint \<Rightarrow> Point \<Rightarrow> Point \<Rightarrow> real \<Rightarrow> real \<Rightarrow> BoneSegment" where
  "storeBone k s e w a = \<lparr>key = k, start = s, endp = e, width = w, angle = a, shape = ''custom''\<rparr>"

text \<open>The depth of a joint below the root, which bounds the walks over the hierarchy.\<close>

fun depth :: "joint \<Rightarrow> nat" where
  "depth Root = 0"
| "depth Torso = 1"
| "depth Waist = 1"
| "depth Head = 2"
| "depth (Shoulder s) = 2"
| "depth (Hip s) = 2"
| "depth (Elbow s) = 3"
| "depth (Knee s) = 3"
| "depth (Hand s) = 4"
| "depth (Foot s) = 4"

text \<open>The table \<open>worldAngles\<close> that \<open>computeSkeleton\<close> fills, entry by entry, each entry read
  from the one written before it.\<close>

function worldAngles :: "PoseData \<Rightarrow> joint \<Rightarrow> real" where
  "worldAngles pose Root = 0"
| "worldAngles pose Torso = baseAngle Torso + torso pose"
| "worldAngles pose Waist = baseAngle Waist + waist pose"
| "worldAngles pose Head = worldAngles pose Torso + baseAngle Head + head pose"
| "worldAngles pose (Shoulder s) =
     worldAngles pose Torso + baseAngle (Shoulder s) + shoulder (limbs pose s)"
| "worldAngles pose (Elbow s) =
     worldAngles pose (Shoulder s) + baseAngle (Elbow s) + elbow (limbs pose s)"
| "worldAngles pose (Hand s) =
     worldAngles pose (Elbow s) + baseAngle (Hand s) + hand (limbs pose s)"
| "worldAngles pose (Hip s) =
     worldAngles pose Waist + baseAngle (Hip s) + hip (limbs pose s)"
| "worldAngles pose (Knee s) =
     worldAngles pose (Hip s) + baseAngle (Knee s) + knee (limbs pose s)"
| "worldAngles pose (Foot s) =
     worldAngles pose (Knee s) + baseAngle (Foot s) + foot (limbs pose s)"
  by pat_completeness auto
termination
  by (relation "measure (\<lambda>(pose, k). depth k)") auto

text \<open>The body of the loop over the two sides that places an arm: the joints it stores and
  the bones it pushes, in order.\<close>

definition armChain :: "PoseData \<Rightarrow> Point \<Rightarrow> side \<Rightarrow> (joint \<times> Point) list \<times> BoneSegment list" where
  "armChain pose neckPos s =
     (let shoulderWidth = 48;
          perpTorsoAngle = worldAngles pose Torso + pi / 2;
          shoulderXOffset = (if s = SideRight then shoulderWidth else - shoulderWidth);
          shoulderPos = getEndPoint neckPos perpTorsoAngle shoulderXOffset;
          elbowPos = getEndPoint shoulderPos (worldAngles pose (Shoulder s)) L_ARM;
          handPos = getEndPoint elbowPos (worldAngles pose (Elbow s)) L_FOREARM;
          handEnd = getEndPoint handPos (worldAngles pose (Hand s)) L_HAND
      in ([(Shoulder s, shoulderPos), (Elbow s, elbowPos), (Hand s, handPos)],
          [storeBone (Shoulder s) shoulderPos elbowPos 36 (worldAngles pose (Shoulder s)),
           storeBone (Elbow s) elbowPos handPos 28 (worldAngles pose (Elbow s)),
           storeBone (Hand s) handPos handEnd 16 (worldAngles pose (Hand s))]))"

definition legChain :: "PoseData \<Rightarrow> Point \<Rightarrow> side \<Rightarrow> (joint \<times> Point) list \<times> BoneSegment list" where
  "legChain pose hipBasePos s =
     (let hipWidth = 29;
          perpWaistAngle = worldAngles pose Waist - pi / 2;
          hipXOffset = (if s = SideRight then hipWidth else - hipWidth);
          hipPos = getEndPoint hipBasePos perpWaistAngle hipXOffset;
          kneePos = getEndPoint hipPos (worldAngles pose (Hip s)) L_THIGH;
          footPos = getEndPoint kneePos (worldAngles pose (Knee s)) L_SHIN;
          footEnd = getEndPoint footPos (worldAngles pose (Foot s)) L_FOOT
      in ([(Hip s, hipPos), (Knee s, kneePos), (Foot s, footPos)],
          [storeBone (Hip s) hipPos kneePos 44 (worldAngles pose (Hip s)),
           storeBone (Knee s) kneePos footPos 32 (worldAngles pose (Knee s)),
           storeBone (Foot s) footPos footEnd 18 (worldAngles pose (Foot s))]))"

definition computeSkeleton :: "PoseData \<Rightarrow> Skeleton" where
  "computeSkeleton pose =
     (let rootPos = \<lparr>px = W / 2 + px (offset pose), py = H / 2 + py (offset pose)\<rparr>;
          neckPos = getEndPoint rootPos (worldAngles pose Torso) TORSO_HEIGHT;
          hipBasePos = getEndPoint rootPos (worldAngles pose Waist) WAIST_HEIGHT;
          headVisualEnd = getEndPoint neckPos (worldAngles pose Head) 1;
          headPhysicsCenter = getEndPoint neckPos (worldAngles pose Head) (HEAD_SIZE / (5 / 2));
          armL = armChain pose neckPos SideLeft;
          armR = armChain pose neckPos SideRight;
          legL = legChain pose hipBasePos SideLeft;
          legR = legChain pose hipBasePos SideRight
      in \<lparr>joints =
            [(Root, rootPos), (Torso, neckPos), (Waist, hipBasePos), (Head, headPhysicsCenter)]
            @ fst armL @ fst armR @ fst legL @ fst legR,
          bones =
            [storeBone Torso rootPos neckPos 100 (worldAngles pose Torso),
             storeBone Waist rootPos hipBasePos 60 (worldAngles pose Waist),
             storeBone Head neckPos headVisualEnd HEAD_SIZE (worldAngles pose Head)]
            @ snd armL @ snd armR @ snd legL @ snd legR\<rparr>)"

text \<open>Reading a skeleton: the point stored under a joint key, the bone pushed under a key.\<close>

definition jointPos :: "Skeleton \<Rightarrow> joint \<Rightarrow> Point option" where
  "jointPos sk k = map_of (joints sk) k"

definition boneOf :: "Skeleton \<Rightarrow> joint \<Rightarrow> BoneSegment option" where
  "boneOf sk k = find (\<lambda>b. key b = k) (bones sk)"

text \<open>The length with which \<open>computeSkeleton\<close> draws the bone of each key (the head bone is
  drawn with length \<open>1\<close>; the head joint lies \<open>HEAD_SIZE / 2.5\<close> along it).\<close>

fun limbLength :: "joint \<Rightarrow> real" where
  "limbLength Root = 0"
| "limbLength Torso = TORSO_HEIGHT"
| "limbLength Waist = WAIST_HEIGHT"
| "limbLength Head = 1"
| "limbLength (Shoulder s) = L_ARM"
| "limbLength (Elbow s) = L_FOREARM"
| "limbLength (Hand s) = L_HAND"
| "limbLength (Hip s) = L_THIGH"
| "limbLength (Knee s) = L_SHIN"
| "limbLength (Foot s) = L_FOOT"

section \<open>Ragdoll physics\<close>

definition FRICTION :: real where "FRICTION = 96 / 100"
definition SOLVER_ITERATIONS :: nat where "SOLVER_ITERATIONS = 15"
definition GRAVITY :: Point where "GRAVITY = \<lparr>px = 0, py = 2500\<rparr>"
definition STIFFNESS :: real where "STIFFNESS = 75 / 100"
definition PARTICLE_RADIUS :: real where "PARTICLE_RADIUS = 5"
definition impactFalloutFactor :: real where "impactFalloutFactor = 15 / 100"

record PhysicsParticle =
  pid :: joint
  pos :: Point
  prevPos :: Point
  mass :: real

record PhysicsConstraint =
  particleAIndex :: nat
  particleBIndex :: nat
  restLength :: real

record PhysicsBody =
  particles :: "PhysicsParticle list"
  constraints :: "PhysicsConstraint list"
  particleMap :: "joint \<Rightarrow> nat option"

text \<open>\<open>shortestAngleDiff\<close> of the physics module.\<close>

definition shortestAngleDiff :: "real \<Rightarrow> real \<Rightarrow> real" where
  "shortestAngleDiff from to =
     (let diff = to - from
      in if diff > pi then diff - 2 * pi
         else if diff < - pi then diff + 2 * pi
         else diff)"

subsection \<open>Building a body from a pose\<close>

text \<open>The mass tiers: \<open>root\<close>, \<open>torso\<close> and every key containing \<open>hip\<close> or \<open>shoulder\<close>; then
  \<open>waist\<close> and \<open>head\<close> (no joint is called \<open>neck\<close>); then the rest.\<close>

fun massOf :: "joint \<Rightarrow> real" where
  "massOf Root = 3"
| "massOf Torso = 3"
| "massOf (Hip s) = 3"
| "massOf (Shoulder s) = 3"
| "massOf Waist = 15 / 10"
| "massOf Head = 15 / 10"
| "massOf k = 5 / 10"

definition addParticle ::
  "joint \<times> Point \<Rightarrow> PhysicsParticle list \<times> (joint \<Rightarrow> nat option)
     \<Rightarrow> PhysicsParticle list \<times> (joint \<Rightarrow> nat option)" where
  "addParticle e st =
     (case (e, st) of ((k, point), (ps, m)) \<Rightarrow>
        (ps @ [\<lparr>pid = k, pos = point, prevPos = point, mass = massOf k\<rparr>], m(k \<mapsto> length ps)))"

text \<open>The inner loop over the children of one parent; \<open>parentIndex\<close> and \<open>childIndex\<close> come
  from the particle map, which holds positions of the particle list.\<close>

fun addChildConstraints ::
  "PhysicsParticle list \<Rightarrow> (joint \<Rightarrow> nat option) \<Rightarrow> nat \<Rightarrow> joint list
     \<Rightarrow> PhysicsConstraint list \<Rightarrow> PhysicsConstraint list" where
  "addChildConstraints ps m parentIndex [] cs = cs"
| "addChildConstraints ps m parentIndex (childKey # rest) cs =
     (case m childKey of
        None \<Rightarrow> addChildConstraints ps m parentIndex rest cs
      | Some childIndex \<Rightarrow>
          (let parentParticle = ps ! parentIndex;
               childParticle = ps ! childIndex;
               rl = hypot (px (pos childParticle) - px (pos parentParticle))
                          (py (pos childParticle) - py (pos parentParticle))
           in addChildConstraints ps m parentIndex rest
                (if rl > 1 / 10
                 then cs @ [\<lparr>particleAIndex = parentIndex, particleBIndex = childIndex,
                             restLength = rl\<rparr>]
                 else cs)))"

fun addConstraints ::
  "PhysicsParticle list \<Rightarrow> (joint \<Rightarrow> nat option) \<Rightarrow> joint list
     \<Rightarrow> PhysicsConstraint list \<Rightarrow> PhysicsConstraint list" where
  "addConstraints ps m [] cs = cs"
| "addConstraints ps m (parentKey # rest) cs =
     (case m parentKey of
        None \<Rightarrow> addConstraints ps m rest cs
      | Some parentIndex \<Rightarrow>
          addConstraints ps m rest
            (addChildConstraints ps m parentIndex (children (hierarchy parentKey)) cs))"

definition createPhysicsBodyFromPose :: "PoseData \<Rightarrow> PhysicsBody" where
  "createPhysicsBodyFromPose pose =
     (let skeleton = computeSkeleton pose;
          (ps, m) = fold addParticle (joints skeleton) ([], Map.empty)
      in \<lparr>particles = ps, constraints = addConstraints ps m hierarchyKeys [], particleMap = m\<rparr>)"

subsection \<open>One simulation step\<close>

text \<open>Phase 1, for one particle.\<close>

definition integrate :: "real \<Rightarrow> PhysicsParticle \<Rightarrow> PhysicsParticle" where
  "integrate dtSq p =
     (if mass p = 0 then p
      else let velocity = \<lparr>px = (px (pos p) - px (prevPos p)) * FRICTION,
                            py = (py (pos p) - py (prevPos p)) * FRICTION\<rparr>;
               accel = \<lparr>px = px GRAVITY, py = py GRAVITY\<rparr>
           in p\<lparr>prevPos := pos p,
                pos := \<lparr>px = px (pos p) + (px velocity + px accel * dtSq),
                        py = py (pos p) + (py velocity + py accel * dtSq)\<rparr>\<rparr>)"

text \<open>Phase 2, for one constraint. The two particles are read from the list by index; an
  index outside the list gives \<open>undefined\<close>, whose \<open>pos\<close> cannot be read. The source moves
  the first particle, then the second (which is the same object when the indices agree).\<close>

definition movePos :: "PhysicsParticle \<Rightarrow> real \<Rightarrow> real \<Rightarrow> PhysicsParticle" where
  "movePos p ddx ddy = p\<lparr>pos := \<lparr>px = px (pos p) + ddx, py = py (pos p) + ddy\<rparr>\<rparr>"

definition solveConstraint ::
  "PhysicsParticle list \<Rightarrow> PhysicsConstraint \<Rightarrow> error + PhysicsParticle list" where
  "solveConstraint ps c =
     (if \<not> (particleAIndex c < length ps \<and> particleBIndex c < length ps) then Inl TypeError
      else let pA = ps ! particleAIndex c;
               pB = ps ! particleBIndex c;
               delta = \<lparr>px = px (pos pB) - px (pos pA), py = py (pos pB) - py (pos pA)\<rparr>;
               d = hypot (px delta) (py delta)
           in if d < 1 / 1000 then Inr ps
              else let diff = (d - restLength c) / d;
                       totalMass = mass pA + mass pB
                   in if totalMass = 0 then Inr ps
                      else let pAShare = (if mass pA > 0 then mass pA / totalMass else 1);
                               pBShare = (if mass pB > 0 then mass pB / totalMass else 1);
                               correctionX = px delta * diff * STIFFNESS;
                               correctionY = py delta * diff * STIFFNESS;
                               ps1 = ps[particleAIndex c :=
                                        movePos (ps ! particleAIndex c)
                                          (correctionX * pBShare) (correctionY * pBShare)];
                               ps2 = ps1[particleBIndex c :=
                                         movePos (ps1 ! particleBIndex c)
                                           (- (correctionX * pAShare)) (- (correctionY * pAShare))]
                           in Inr ps2)"

fun solveConstraints ::
  "PhysicsConstraint list \<Rightarrow> PhysicsParticle list \<Rightarrow> error + PhysicsParticle list" where
  "solveConstraints [] ps = Inr ps"
| "solveConstraints (c # cs) ps =
     (case solveConstraint ps c of Inl e \<Rightarrow> Inl e | Inr ps' \<Rightarrow> solveConstraints cs ps')"

fun solverLoop ::
  "nat \<Rightarrow> PhysicsConstraint list \<Rightarrow> PhysicsParticle list \<Rightarrow> error + PhysicsParticle list" where
  "solverLoop 0 cs ps = Inr ps"
| "solverLoop (Suc n) cs ps =
     (case solveConstraints cs ps of Inl e \<Rightarrow> Inl e | Inr ps' \<Rightarrow> solverLoop n cs ps')"

text \<open>Phase 3, for one particle: the four tests of the source, in order, each on the
  particle as the tests before it left it.\<close>

definition hitFloor :: "real \<Rightarrow> PhysicsParticle \<Rightarrow> PhysicsParticle" where
  "hitFloor vy p =
     (if py (pos p) > H - PARTICLE_RADIUS
      then p\<lparr>pos := (pos p)\<lparr>py := H - PARTICLE_RADIUS\<rparr>,
             prevPos := \<lparr>px = px (prevPos p) - vy * impactFalloutFactor,
                         py = H - PARTICLE_RADIUS\<rparr>\<rparr>
      else p)"

definition hitCeiling :: "PhysicsParticle \<Rightarrow> PhysicsParticle" where
  "hitCeiling p =
     (if py (pos p) < PARTICLE_RADIUS
      then p\<lparr>pos := (pos p)\<lparr>py := PARTICLE_RADIUS\<rparr>,
             prevPos := (prevPos p)\<lparr>py := PARTICLE_RADIUS\<rparr>\<rparr>
      else p)"

definition hitRight :: "PhysicsParticle \<Rightarrow> PhysicsParticle" where
  "hitRight p =
     (if px (pos p) > W - PARTICLE_RADIUS
      then p\<lparr>pos := (pos p)\<lparr>px := W - PARTICLE_RADIUS\<rparr>,
             prevPos := (prevPos p)\<lparr>px := W - PARTICLE_RADIUS\<rparr>\<rparr>
      else p)"

definition hitLeft :: "PhysicsParticle \<Rightarrow> PhysicsParticle" where
  "hitLeft p =
     (if px (pos p) < PARTICLE_RADIUS
      then p\<lparr>pos := (pos p)\<lparr>px := PARTICLE_RADIUS\<rparr>,
             prevPos := (prevPos p)\<lparr>px := PARTICLE_RADIUS\<rparr>\<rparr>
      else p)"

definition collide :: "PhysicsParticle \<Rightarrow> PhysicsParticle" where
  "collide p =
     (let vy = py (pos p) - py (prevPos p)
      in hitLeft (hitRight (hitCeiling (hitFloor vy p))))"

definition updatePhysicsBody :: "PhysicsBody \<Rightarrow> real \<Rightarrow> error + PhysicsBody" where
  "updatePhysicsBody body dt =
     (let dtSq = dt * dt;
          ps1 = map (integrate dtSq) (particles body)
      in case solverLoop SOLVER_ITERATIONS (constraints body) ps1 of
           Inl e \<Rightarrow> Inl e
         | Inr ps2 \<Rightarrow> Inr (body\<lparr>particles := map collide ps2\<rparr>))"

subsection \<open>Reading a pose back from a body\<close>

text \<open>\<open>getParticlePos\<close>: no point for a key the map does not have; a map entry outside the
  particle list gives \<open>undefined\<close>, whose \<open>pos\<close> cannot be read.\<close>

definition getParticlePos :: "PhysicsBody \<Rightarrow> joint \<Rightarrow> error + Point option" where
  "getParticlePos body k =
     (case particleMap body k of
        None \<Rightarrow> Inr None
      | Some i \<Rightarrow> if i < length (particles body) then Inr (Some (pos (particles body ! i)))
                  else Inl TypeError)"

text \<open>The assignment \<open>newPose[parts[0]][parts[1]] = v\<close>, or \<open>newPose[childKey] = v\<close>. No
  joint has \<open>root\<close> as a child, so the first equation is never used.\<close>

definition setLimbs :: "PoseData \<Rightarrow> side \<Rightarrow> (Limbs \<Rightarrow> Limbs) \<Rightarrow> PoseData" where
  "setLimbs pose s f = (case s of SideLeft \<Rightarrow> pose\<lparr>left := f (left pose)\<rparr>
                                 | SideRight \<Rightarrow> pose\<lparr>right := f (right pose)\<rparr>)"

fun setAngle :: "PoseData \<Rightarrow> joint \<Rightarrow> real \<Rightarrow> PoseData" where
  "setAngle pose Root v = pose"
| "setAngle pose Torso v = pose\<lparr>torso := v\<rparr>"
| "setAngle pose Waist v = pose\<lparr>waist := v\<rparr>"
| "setAngle pose Head v = pose\<lparr>head := v\<rparr>"
| "setAngle pose (Shoulder s) v = setLimbs pose s (\<lambda>l. l\<lparr>shoulder := v\<rparr>)"
| "setAngle pose (Elbow s) v = setLimbs pose s (\<lambda>l. l\<lparr>elbow := v\<rparr>)"
| "setAngle pose (Hand s) v = setLimbs pose s (\<lambda>l. l\<lparr>hand := v\<rparr>)"
| "setAngle pose (Hip s) v = setLimbs pose s (\<lambda>l. l\<lparr>hip := v\<rparr>)"
| "setAngle pose (Knee s) v = setLimbs pose s (\<lambda>l. l\<lparr>knee := v\<rparr>)"
| "setAngle pose (Foot s) v = setLimbs pose s (\<lambda>l. l\<lparr>foot := v\<rparr>)"

text \<open>The largest depth-from-the-leaves of a list of joints, for the termination of the walk.\<close>

fun height :: "joint \<Rightarrow> nat" where
  "height Root = 4"
| "height Torso = 3"
| "height Waist = 3"
| "height Head = 0"
| "height (Shoulder s) = 2"
| "height (Hip s) = 2"
| "height (Elbow s) = 1"
| "height (Knee s) = 1"
| "height (Hand s) = 0"
| "height (Foot s) = 0"

fun heights :: "joint list \<Rightarrow> nat" where
  "heights [] = 0"
| "heights (k # ks) = max (Suc (height k)) (heights ks)"

text \<open>
  \<open>calculateAngles\<close>, the recursive closure of \<open>extractPoseFromPhysicsBody\<close>, with the pose under
  construction passed through; \<open>calculateChildren\<close> is its loop over the children of
  \<open>parentKey\<close>. The closure also records each final world angle in a table it never reads.
\<close>

function calculateAngles ::
    "PhysicsBody \<Rightarrow> PoseData \<Rightarrow> joint \<Rightarrow> real \<Rightarrow> PoseData \<Rightarrow> error + PoseData"
  and calculateChildren ::
    "PhysicsBody \<Rightarrow> PoseData \<Rightarrow> joint \<Rightarrow> real \<Rightarrow> joint list \<Rightarrow> PoseData \<Rightarrow> error + PoseData"
where
  "calculateAngles body previousPose parentKey parentWorldAngle newPose =
     calculateChildren body previousPose parentKey parentWorldAngle
       (children (hierarchy parentKey)) newPose"
| "calculateChildren body previousPose parentKey parentWorldAngle [] newPose = Inr newPose"
| "calculateChildren body previousPose parentKey parentWorldAngle (childKey # rest) newPose =
     (case getParticlePos body parentKey of
        Inl e \<Rightarrow> Inl e
      | Inr parentPos \<Rightarrow>
     (case getParticlePos body childKey of
        Inl e \<Rightarrow> Inl e
      | Inr childPos \<Rightarrow>
     (case (parentPos, childPos) of
        (Some pp, Some cp) \<Rightarrow>
          (let dx = px cp - px pp;
               dy = py cp - py pp;
               childWorldAngle = atan2 dy dx;
               rawLocalAngle = childWorldAngle - parentWorldAngle - baseAngle childKey;
               previousLocalAngle = getPrevPoseAngle previousPose childKey;
               finalLocalAngle =
                 previousLocalAngle + shortestAngleDiff previousLocalAngle rawLocalAngle;
               finalChildWorldAngle = parentWorldAngle + baseAngle childKey + finalLocalAngle
           in case calculateAngles body previousPose childKey finalChildWorldAngle
                     (setAngle newPose childKey finalLocalAngle) of
                Inl e \<Rightarrow> Inl e
              | Inr newPose' \<Rightarrow>
                  calculateChildren body previousPose parentKey parentWorldAngle rest newPose')
      | _ \<Rightarrow> calculateChildren body previousPose parentKey parentWorldAngle rest newPose)))"
  by pat_completeness auto
termination
proof -
  have h: "heights (children (hierarchy k)) \<le> height k" for k
    by (cases k) simp_all
  have h1: "2 * heights (children (hierarchy k)) < Suc (2 * height k)" for k
    using h [of k] by simp
  show ?thesis
    by (relation "measures
         [\<lambda>x. case x of Inl (b, p, k, w, n) \<Rightarrow> 2 * height k + 1
                       | Inr (b, p, k, w, ks, n) \<Rightarrow> 2 * heights ks,
          \<lambda>x. case x of Inl (b, p, k, w, n) \<Rightarrow> 0
                       | Inr (b, p, k, w, ks, n) \<Rightarrow> length ks]")
       (auto simp: h1 max_def)
qed

definition extractPoseFromPhysicsBody :: "PhysicsBody \<Rightarrow> PoseData \<Rightarrow> error + PoseData" where
  "extractPoseFromPhysicsBody body previousPose =
     (case getParticlePos body Root of
        Inl e \<Rightarrow> Inl e
      | Inr rootPos \<Rightarrow>
     (case getParticlePos body Torso of
        Inl e \<Rightarrow> Inl e
      | Inr torsoPos \<Rightarrow>
     (case getParticlePos body Waist of
        Inl e \<Rightarrow> Inl e
      | Inr waistPos \<Rightarrow>
     (case (rootPos, torsoPos, waistPos) of
        (Some rp, Some tp, Some wp) \<Rightarrow>
          (let torsoWorldAngle = atan2 (py tp - py rp) (px tp - px rp);
               waistWorldAngle = atan2 (py wp - py rp) (px wp - px rp);
               rawTorsoAngle = torsoWorldAngle - baseAngle Torso;
               newTorso = torso previousPose + shortestAngleDiff (torso previousPose) rawTorsoAngle;
               rawWaistAngle = waistWorldAngle - baseAngle Waist;
               newWaist = waist previousPose + shortestAngleDiff (waist previousPose) rawWaistAngle;
               newPose = previousPose\<lparr>torso := newTorso, waist := newWaist,
                           offset := \<lparr>px = px rp - W / 2, py = py rp - H / 2\<rparr>\<rparr>;
               finalTorsoWorldAngle = baseAngle Torso + torso newPose;
               finalWaistWorldAngle = baseAngle Waist + waist newPose
           in case calculateAngles body previousPose Torso finalTorsoWorldAngle newPose of
                Inl e \<Rightarrow> Inl e
              | Inr newPose' \<Rightarrow>
                  calculateAngles body previousPose Waist finalWaistWorldAngle newPose')
      | _ \<Rightarrow> Inr previousPose))))"

section \<open>The simulation step over numbers with infinities and NaN\<close>

text \<open>
  A JavaScript number is a finite value, \<open>Infinity\<close>, \<open>-Infinity\<close> or \<open>NaN\<close>. In \<open>jsnum\<close> the
  finite values are the reals with exact arithmetic and a single zero (rounding, and the
  overflow of a finite result, are not modelled); the operations on the other values are
  those of the language: \<open>NaN\<close> spreads through every operation and every comparison with it
  is false, \<open>0 * Infinity\<close> and \<open>Infinity - Infinity\<close> are \<open>NaN\<close>.
\<close>

datatype jsnum = Num real | PosInf | NegInf | NaN

fun jneg :: "jsnum \<Rightarrow> jsnum" where
  "jneg (Num a) = Num (- a)"
| "jneg PosInf = NegInf"
| "jneg NegInf = PosInf"
| "jneg NaN = NaN"

fun jadd :: "jsnum \<Rightarrow> jsnum \<Rightarrow> jsnum" where
  "jadd NaN b = NaN"
| "jadd a NaN = NaN"
| "jadd (Num a) (Num b) = Num (a + b)"
| "jadd PosInf NegInf = NaN"
| "jadd NegInf PosInf = NaN"
| "jadd PosInf b = PosInf"
| "jadd a PosInf = PosInf"
| "jadd NegInf b = NegInf"
| "jadd a NegInf = NegInf"

definition jsub :: "jsnum \<Rightarrow> jsnum \<Rightarrow> jsnum" where
  "jsub a b = jadd a (jneg b)"

text \<open>The infinity with the sign of a real, \<open>NaN\<close> for zero.\<close>

definition signedInf :: "real \<Rightarrow> jsnum" where
  "signedInf a = (if a = 0 then NaN else if 0 < a then PosInf else NegInf)"

fun jmul :: "jsnum \<Rightarrow> jsnum \<Rightarrow> jsnum" where
  "jmul NaN b = NaN"
| "jmul a NaN = NaN"
| "jmul (Num a) (Num b) = Num (a * b)"
| "jmul (Num a) PosInf = signedInf a"
| "jmul (Num a) NegInf = signedInf (- a)"
| "jmul PosInf (Num b) = signedInf b"
| "jmul NegInf (Num b) = signedInf (- b)"
| "jmul PosInf PosInf = PosInf"
| "jmul PosInf NegInf = NegInf"
| "jmul NegInf PosInf = NegInf"
| "jmul NegInf NegInf = PosInf"

text \<open>Division; a finite value divided by zero takes the sign of the dividend, the zero
  being taken as positive.\<close>

fun jdiv :: "jsnum \<Rightarrow> jsnum \<Rightarrow> jsnum" where
  "jdiv NaN b = NaN"
| "jdiv a NaN = NaN"
| "jdiv (Num a) (Num b) = (if b = 0 then signedInf a else Num (a / b))"
| "jdiv (Num a) PosInf = Num 0"
| "jdiv (Num a) NegInf = Num 0"
| "jdiv PosInf (Num b) = (if 0 \<le> b then PosInf else NegInf)"
| "jdiv NegInf (Num b) = (if 0 \<le> b then NegInf else PosInf)"
| "jdiv a b = NaN"

text \<open>\<open>a < b\<close>; \<open>a > b\<close> is \<open>jless b a\<close>.\<close>

fun jless :: "jsnum \<Rightarrow> jsnum \<Rightarrow> bool" where
  "jless (Num a) (Num b) = (a < b)"
| "jless (Num a) PosInf = True"
| "jless NegInf (Num b) = True"
| "jless NegInf PosInf = True"
| "jless a b = False"

text \<open>\<open>Math.hypot\<close>: \<open>Infinity\<close> as soon as one argument is infinite, else \<open>NaN\<close> if one is.\<close>

fun jhypot :: "jsnum \<Rightarrow> jsnum \<Rightarrow> jsnum" where
  "jhypot (Num a) (Num b) = Num (hypot a b)"
| "jhypot PosInf b = PosInf"
| "jhypot NegInf b = PosInf"
| "jhypot a PosInf = PosInf"
| "jhypot a NegInf = PosInf"
| "jhypot a b = NaN"

record Point_js =
  jx :: jsnum
  jy :: jsnum

record PhysicsParticle_js =
  pid_js :: joint
  pos_js :: Point_js
  prevPos_js :: Point_js
  mass_js :: jsnum

record PhysicsConstraint_js =
  particleAIndex_js :: nat
  particleBIndex_js :: nat
  restLength_js :: jsnum

record PhysicsBody_js =
  particles_js :: "PhysicsParticle_js list"
  constraints_js :: "PhysicsConstraint_js list"
  particleMap_js :: "joint \<Rightarrow> nat option"

text \<open>\<open>updatePhysicsBody\<close> once more, phase by phase as above, on these numbers.\<close>

definition integrate_js :: "jsnum \<Rightarrow> PhysicsParticle_js \<Rightarrow> PhysicsParticle_js" where
  "integrate_js dtSq p =
     (if mass_js p = Num 0 then p
      else let velocity = \<lparr>jx = jmul (jsub (jx (pos_js p)) (jx (prevPos_js p))) (Num FRICTION),
                            jy = jmul (jsub (jy (pos_js p)) (jy (prevPos_js p))) (Num FRICTION)\<rparr>;
               accel = \<lparr>jx = Num (px GRAVITY), jy = Num (py GRAVITY)\<rparr>
           in p\<lparr>prevPos_js := pos_js p,
                pos_js := \<lparr>jx = jadd (jx (pos_js p)) (jadd (jx velocity) (jmul (jx accel) dtSq)),
                           jy = jadd (jy (pos_js p)) (jadd (jy velocity) (jmul (jy accel) dtSq))\<rparr>\<rparr>)"

definition movePos_js :: "PhysicsParticle_js \<Rightarrow> jsnum \<Rightarrow> jsnum \<Rightarrow> PhysicsParticle_js" where
  "movePos_js p ddx ddy =
     p\<lparr>pos_js := \<lparr>jx = jadd (jx (pos_js p)) ddx, jy = jadd (jy (pos_js p)) ddy\<rparr>\<rparr>"

definition solveConstraint_js ::
  "PhysicsParticle_js list \<Rightarrow> PhysicsConstraint_js \<Rightarrow> error + PhysicsParticle_js list" where
  "solveConstraint_js ps c =
     (if \<not> (particleAIndex_js c < length ps \<and> particleBIndex_js c < length ps) then Inl TypeError
      else let pA = ps ! particleAIndex_js c;
               pB = ps ! particleBIndex_js c;
               delta = \<lparr>jx = jsub (jx (pos_js pB)) (jx (pos_js pA)),
                         jy = jsub (jy (pos_js pB)) (jy (pos_js pA))\<rparr>;
               d = jhypot (jx delta) (jy delta)
           in if jless d (Num (1 / 1000)) then Inr ps
              else let diff = jdiv (jsub d (restLength_js c)) d;
                       totalMass = jadd (mass_js pA) (mass_js pB)
                   in if totalMass = Num 0 then Inr ps
                      else let pAShare = (if jless (Num 0) (mass_js pA)
                                          then jdiv (mass_js pA) totalMass else Num 1);
                               pBShare = (if jless (Num 0) (mass_js pB)
                                          then jdiv (mass_js pB) totalMass else Num 1);
                               correctionX = jmul (jmul (jx delta) diff) (Num STIFFNESS);
                               correctionY = jmul (jmul (jy delta) diff) (Num STIFFNESS);
                               ps1 = ps[particleAIndex_js c :=
                                        movePos_js (ps ! particleAIndex_js c)
                                          (jmul correctionX pBShare) (jmul correctionY pBShare)];
                               ps2 = ps1[particleBIndex_js c :=
                                         movePos_js (ps1 ! particleBIndex_js c)
                                           (jneg (jmul correctionX pAShare))
                                           (jneg (jmul correctionY pAShare))]
                           in Inr ps2)"

fun solveConstraints_js ::
  "PhysicsConstraint_js list \<Rightarrow> PhysicsParticle_js list \<Rightarrow> error + PhysicsParticle_js list" where
  "solveConstraints_js [] ps = Inr ps"
| "solveConstraints_js (c # cs) ps =
     (case solveConstraint_js ps c of Inl e \<Rightarrow> Inl e | Inr ps' \<Rightarrow> solveConstraints_js cs ps')"

fun solverLoop_js ::
  "nat \<Rightarrow> PhysicsConstraint_js list \<Rightarrow> PhysicsParticle_js list
     \<Rightarrow> error + PhysicsParticle_js list" where
  "solverLoop_js 0 cs ps = Inr ps"
| "solverLoop_js (Suc n) cs ps =
     (case solveConstraints_js cs ps of Inl e \<Rightarrow> Inl e | Inr ps' \<Rightarrow> solverLoop_js n cs ps')"

definition hitFloor_js :: "jsnum \<Rightarrow> PhysicsParticle_js \<Rightarrow> PhysicsParticle_js" where
  "hitFloor_js vy p =
     (if jless (Num (H - PARTICLE_RADIUS)) (jy (pos_js p))
      then p\<lparr>pos_js := (pos_js p)\<lparr>jy := Num (H - PARTICLE_RADIUS)\<rparr>,
             prevPos_js := \<lparr>jx = jsub (jx (prevPos_js p)) (jmul vy (Num impactFalloutFactor)),
                            jy = Num (H - PARTICLE_RADIUS)\<rparr>\<rparr>
      else p)"

definition hitCeiling_js :: "PhysicsParticle_js \<Rightarrow> PhysicsParticle_js" where
  "hitCeiling_js p =
     (if jless (jy (pos_js p)) (Num PARTICLE_RADIUS)
      then p\<lparr>pos_js := (pos_js p)\<lparr>jy := Num PARTICLE_RADIUS\<rparr>,
             prevPos_js := (prevPos_js p)\<lparr>jy := Num PARTICLE_RADIUS\<rparr>\<rparr>
      else p)"

definition hitRight_js :: "PhysicsParticle_js \<Rightarrow> PhysicsParticle_js" where
  "hitRight_js p =
     (if jless (Num (W - PARTICLE_RADIUS)) (jx (pos_js p))
      then p\<lparr>pos_js := (pos_js p)\<lparr>jx := Num (W - PARTICLE_RADIUS)\<rparr>,
             prevPos_js := (prevPos_js p)\<lparr>jx := Num (W - PARTICLE_RADIUS)\<rparr>\<rparr>
      else p)"

definition hitLeft_js :: "PhysicsParticle_js \<Rightarrow> PhysicsParticle_js" where
  "hitLeft_js p =
     (if jless (jx (pos_js p)) (Num PARTICLE_RADIUS)
      then p\<lparr>pos_js := (pos_js p)\<lparr>jx := Num PARTICLE_RADIUS\<rparr>,
             prevPos_js := (prevPos_js p)\<lparr>jx := Num PARTICLE_RADIUS\<rparr>\<rparr>
      else p)"

definition collide_js :: "PhysicsParticle_js \<Rightarrow> PhysicsParticle_js" where
  "collide_js p =
     (let vy = jsub (jy (pos_js p)) (jy (prevPos_js p))
      in hitLeft_js (hitRight_js (hitCeiling_js (hitFloor_js vy p))))"

definition updatePhysicsBody_js :: "PhysicsBody_js \<Rightarrow> jsnum \<Rightarrow> error + PhysicsBody_js" where
  "updatePhysicsBody_js body dt =
     (let dtSq = jmul dt dt;
          ps1 = map (integrate_js dtSq) (particles_js body)
      in case solverLoop_js SOLVER_ITERATIONS (constraints_js body) ps1 of
           Inl e \<Rightarrow> Inl e
         | Inr ps2 \<Rightarrow> Inr (body\<lparr>particles_js := map collide_js ps2\<rparr>))"

section \<open>Specification-side definitions and example inputs\<close>

text \<open>A blend of two poses, field by field: \<open>f\<close> on the two offset coordinates, \<open>g\<close> on every
  angle.\<close>

definition blendLimbs :: "(real \<Rightarrow> real \<Rightarrow> real) \<Rightarrow> Limbs \<Rightarrow> Limbs \<Rightarrow> Limbs" where
  "blendLimbs g a b =
     \<lparr>shoulder = g (shoulder a) (shoulder b), elbow = g (elbow a) (elbow b),
      hand = g (hand a) (hand b), hip = g (hip a) (hip b),
      knee = g (knee a) (knee b), foot = g (foot a) (foot b)\<rparr>"

definition blendPoses ::
  "(real \<Rightarrow> real \<Rightarrow> real) \<Rightarrow> (real \<Rightarrow> real \<Rightarrow> real) \<Rightarrow> PoseData \<Rightarrow> PoseData \<Rightarrow> PoseData" where
  "blendPoses f g a b =
     \<lparr>offset = \<lparr>px = f (px (offset a)) (px (offset b)), py = f (py (offset a)) (py (offset b))\<rparr>,
      torso = g (torso a) (torso b), waist = g (waist a) (waist b), head = g (head a) (head b),
      left = blendLimbs g (left a) (left b), right = blendLimbs g (right a) (right b)\<rparr>"

text \<open>The wrap of the specification: a difference outside \<open>(-pi, pi]\<close> is moved by one full
  turn towards it. \<open>specInterpolate\<close> is the interpolation the specification describes.\<close>

definition wrapHalfOpen :: "real \<Rightarrow> real" where
  "wrapHalfOpen d = (if d > pi then d - 2 * pi else if d \<le> - pi then d + 2 * pi else d)"

definition specInterpolate :: "PoseData \<Rightarrow> PoseData \<Rightarrow> real \<Rightarrow> PoseData" where
  "specInterpolate a b t =
     blendPoses (\<lambda>u v. u + (v - u) * t) (\<lambda>u v. u + wrapHalfOpen (v - u) * t) a b"

text \<open>The wrap with both ends of the interval kept: only a difference greater than \<open>pi\<close> or
  less than \<open>- pi\<close> is moved by one full turn.\<close>

definition wrapClosed :: "real \<Rightarrow> real" where
  "wrapClosed d = (if d > pi then d - 2 * pi else if d < - pi then d + 2 * pi else d)"

definition shortArcInterpolate :: "PoseData \<Rightarrow> PoseData \<Rightarrow> real \<Rightarrow> PoseData" where
  "shortArcInterpolate a b t =
     blendPoses (\<lambda>u v. u + (v - u) * t) (\<lambda>u v. u + wrapClosed (v - u) * t) a b"

text \<open>The default pose with the left arm turned half a turn, with the torso at \<open>-3\<close> and at \<open>3\<close>,
  with the root moved \<open>100\<close> units along \<open>x\<close>, and with the head wound up by two full turns.\<close>

definition armTurnedPose :: PoseData where
  "armTurnedPose = getDefaultPose\<lparr>left := (left getDefaultPose)\<lparr>shoulder := - (pi / 2)\<rparr>\<rparr>"

definition torsoPose :: "real \<Rightarrow> PoseData" where
  "torsoPose a = getDefaultPose\<lparr>torso := a\<rparr>"

definition shiftedPose :: "real \<Rightarrow> PoseData" where
  "shiftedPose u = getDefaultPose\<lparr>offset := \<lparr>px = u, py = 0\<rparr>\<rparr>"

definition headWoundPose :: PoseData where
  "headWoundPose = getDefaultPose\<lparr>head := 4 * pi\<rparr>"

text \<open>Two particles ten units apart joined by a constraint of rest length five, the first
  one without mass.\<close>

definition pinnedPair :: "PhysicsParticle list" where
  "pinnedPair =
     [\<lparr>pid = Root, pos = \<lparr>px = 100, py = 100\<rparr>, prevPos = \<lparr>px = 100, py = 100\<rparr>, mass = 0\<rparr>,
      \<lparr>pid = Torso, pos = \<lparr>px = 110, py = 100\<rparr>, prevPos = \<lparr>px = 110, py = 100\<rparr>, mass = 1\<rparr>]"

definition pinnedConstraint :: PhysicsConstraint where
  "pinnedConstraint = \<lparr>particleAIndex = 0, particleBIndex = 1, restLength = 5\<rparr>"

text \<open>One particle moving ten units per step down and to the right, five units from the
  floor and from the right wall.\<close>

definition cornerParticle :: PhysicsParticle where
  "cornerParticle =
     \<lparr>pid = Root, pos = \<lparr>px = 790, py = 790\<rparr>, prevPos = \<lparr>px = 780, py = 780\<rparr>, mass = 3\<rparr>"

definition cornerBody :: PhysicsBody where
  "cornerBody = \<lparr>particles = [cornerParticle], constraints = [], particleMap = [Root \<mapsto> 0]\<rparr>"

text \<open>A body is well indexed when every constraint names two particles of the list.\<close>

definition wellIndexed_js :: "PhysicsBody_js \<Rightarrow> bool" where
  "wellIndexed_js body =
     list_all (\<lambda>c. particleAIndex_js c < length (particles_js body)
                  \<and> particleBIndex_js c < length (particles_js body)) (constraints_js body)"

text \<open>Two particles at rest, tied at their rest length, the second one below the floor;
  and one particle at rest in the stage.\<close>

definition tiedPair :: PhysicsBody_js where
  "tiedPair =
     \<lparr>particles_js =
        [\<lparr>pid_js = Root, pos_js = \<lparr>jx = Num 100, jy = Num 100\<rparr>,
           prevPos_js = \<lparr>jx = Num 100, jy = Num 100\<rparr>, mass_js = Num 3\<rparr>,
         \<lparr>pid_js = Torso, pos_js = \<lparr>jx = Num 100, jy = Num 900\<rparr>,
           prevPos_js = \<lparr>jx = Num 100, jy = Num 900\<rparr>, mass_js = Num 1\<rparr>],
      constraints_js =
        [\<lparr>particleAIndex_js = 0, particleBIndex_js = 1, restLength_js = Num 800\<rparr>],
      particleMap_js = [Root \<mapsto> 0, Torso \<mapsto> 1]\<rparr>"

definition restingOne :: PhysicsBody_js where
  "restingOne =
     \<lparr>particles_js =
        [\<lparr>pid_js = Root, pos_js = \<lparr>jx = Num 100, jy = Num 100\<rparr>,
           prevPos_js = \<lparr>jx = Num 100, jy = Num 100\<rparr>, mass_js = Num 3\<rparr>],
      constraints_js = [],
      particleMap_js = [Root \<mapsto> 0]\<rparr>"

text \<open>Four free particles, each moving ten units per step towards one side of the stage
  and ten units away from it.\<close>

definition wallBody :: PhysicsBody where
  "wallBody =
     \<lparr>particles =
        [\<lparr>pid = Foot SideLeft, pos = \<lparr>px = 400, py = 790\<rparr>, prevPos = \<lparr>px = 400, py = 780\<rparr>,
           mass = 1 / 2\<rparr>,
         \<lparr>pid = Head, pos = \<lparr>px = 400, py = 10\<rparr>, prevPos = \<lparr>px = 400, py = 20\<rparr>, mass = 3 / 2\<rparr>,
         \<lparr>pid = Hand SideRight, pos = \<lparr>px = 790, py = 400\<rparr>, prevPos = \<lparr>px = 780, py = 400\<rparr>,
           mass = 1 / 2\<rparr>,
         \<lparr>pid = Hand SideLeft, pos = \<lparr>px = 10, py = 400\<rparr>, prevPos = \<lparr>px = 20, py = 400\<rparr>,
           mass = 1 / 2\<rparr>],
      constraints = [],
      particleMap = [Foot SideLeft \<mapsto> 0, Head \<mapsto> 1, Hand SideRight \<mapsto> 2, Hand SideLeft \<mapsto> 3]\<rparr>"

text \<open>The joint positions of the default pose.\<close>

definition restJoints :: "(joint \<times> Point) list" where
  "restJoints =
     [(Root, \<lparr>px = 400, py = 400\<rparr>), (Torso, \<lparr>px = 400, py = 250\<rparr>),
      (Waist, \<lparr>px = 400, py = 475\<rparr>), (Head, \<lparr>px = 400, py = 2164 / 10\<rparr>),
      (Shoulder SideLeft, \<lparr>px = 352, py = 250\<rparr>), (Elbow SideLeft, \<lparr>px = 352, py = 145\<rparr>),
      (Hand SideLeft, \<lparr>px = 352, py = 40\<rparr>),
      (Shoulder SideRight, \<lparr>px = 448, py = 250\<rparr>), (Elbow SideRight, \<lparr>px = 448, py = 145\<rparr>),
      (Hand SideRight, \<lparr>px = 448, py = 40\<rparr>),
      (Hip SideLeft, \<lparr>px = 371, py = 475\<rparr>), (Knee SideLeft, \<lparr>px = 371, py = 600\<rparr>),
      (Foot SideLeft, \<lparr>px = 371, py = 725\<rparr>),
      (Hip SideRight, \<lparr>px = 429, py = 475\<rparr>), (Knee SideRight, \<lparr>px = 429, py = 600\<rparr>),
      (Foot SideRight, \<lparr>px = 429, py = 725\<rparr>)]"

section \<open>Facts about the elementary geometry\<close>

lemma hypot_scale: "0 \<le> s \<Longrightarrow> hypot (a * s) (b * s) = hypot a b * s"
proof -
  assume s: "0 \<le> s"
  have "(a * s) * (a * s) + (b * s) * (b * s) = (a * a + b * b) * (s * s)"
    by (simp add: algebra_simps)
  then have "hypot (a * s) (b * s) = sqrt ((a * a + b * b) * (s * s))"
    by (simp add: hypot_def)
  also have "\<dots> = sqrt (a * a + b * b) * sqrt (s * s)"
    by (rule real_sqrt_mult)
  also have "sqrt (s * s) = s"
    using s by simp
  finally show ?thesis
    by (simp add: hypot_def)
qed

lemma hypot_axis [simp]: "hypot a 0 = \<bar>a\<bar>" "hypot 0 b = \<bar>b\<bar>"
  by (simp_all add: hypot_def)

lemma atan2_axes [simp]:
  "0 < a \<Longrightarrow> atan2 0 a = 0"
  "a < 0 \<Longrightarrow> atan2 0 a = pi"
  "0 < a \<Longrightarrow> atan2 a 0 = pi / 2"
  "a < 0 \<Longrightarrow> atan2 a 0 = - (pi / 2)"
  by (simp_all add: atan2_def)

lemma hypot_pos: "dx \<noteq> 0 \<or> dy \<noteq> 0 \<Longrightarrow> 0 < hypot dx dy"
  unfolding hypot_def by (simp add: power2_eq_square[symmetric] sum_power2_gt_zero_iff)

lemma sqrt_ratio:
  assumes "dx \<noteq> 0"
  shows "sqrt (1 + (dy / dx)\<^sup>2) = hypot dx dy / \<bar>dx\<bar>"
proof -
  have "1 + (dy / dx)\<^sup>2 = (dx * dx + dy * dy) / (dx * dx)"
    using assms by (simp add: field_simps power2_eq_square)
  then have "sqrt (1 + (dy / dx)\<^sup>2) = sqrt (dx * dx + dy * dy) / sqrt (dx * dx)"
    by (simp add: real_sqrt_divide)
  then show ?thesis
    by (simp add: hypot_def)
qed

lemma cos_sin_atan2:
  assumes "dx \<noteq> 0 \<or> dy \<noteq> 0"
  shows "cos (atan2 dy dx) = dx / hypot dx dy \<and> sin (atan2 dy dx) = dy / hypot dx dy"
proof -
  have hp: "0 < hypot dx dy"
    using assms by (rule hypot_pos)
  consider (pos) "0 < dx" | (neg) "dx < 0" | (up) "dx = 0" "0 < dy" | (down) "dx = 0" "dy < 0"
    using assms by fastforce
  then show ?thesis
  proof cases
    case pos
    then have s: "sqrt (1 + (dy / dx)\<^sup>2) = hypot dx dy / dx"
      using sqrt_ratio [of dx dy] by simp
    from pos hp show ?thesis
      by (simp add: atan2_def cos_arctan sin_arctan s)
  next
    case neg
    then have s: "sqrt (1 + (dy / dx)\<^sup>2) = hypot dx dy / (- dx)"
      using sqrt_ratio [of dx dy] by simp
    from neg hp show ?thesis
      by (simp add: atan2_def cos_arctan sin_arctan s)
  next
    case up
    then show ?thesis by (simp add: atan2_def)
  next
    case down
    then show ?thesis by (simp add: atan2_def)
  qed
qed

lemma atan2_scale: "0 < s \<Longrightarrow> atan2 (dy * s) (dx * s) = atan2 dy dx"
  by (simp add: atan2_def zero_less_mult_iff mult_less_0_iff zero_le_mult_iff)

lemma pi_not_less_minus_half [simp]: "\<not> pi < - (pi / 2)"
  using pi_gt_zero by linarith

section \<open>The two-bone solver\<close>

lemma solveTriangle_at_min_reach:
  assumes "0 < l1" "0 < l2" "l1 \<noteq> l2"
  shows "solveTriangle dx dy \<bar>l1 - l2\<bar> l1 l2 =
           \<lparr>angle1 = (if l2 < l1 then atan2 dy dx else atan2 dy dx - pi), angle2 = pi\<rparr>"
proof -
  have num2: "l1 * l1 + l2 * l2 - \<bar>l1 - l2\<bar> * \<bar>l1 - l2\<bar> = 2 * l1 * l2"
    by (simp add: abs_mult_self_eq algebra_simps)
  have nz2: "2 * l1 * l2 \<noteq> 0"
    using assms by simp
  have c2: "(l1 * l1 + l2 * l2 - \<bar>l1 - l2\<bar> * \<bar>l1 - l2\<bar>) / (2 * l1 * l2) = 1"
    unfolding num2 using nz2 by (rule divide_self)
  have nz1: "2 * \<bar>l1 - l2\<bar> * l1 \<noteq> 0"
    using assms by simp
  have c1: "(\<bar>l1 - l2\<bar> * \<bar>l1 - l2\<bar> + l1 * l1 - l2 * l2) / (2 * \<bar>l1 - l2\<bar> * l1)
              = (if l2 < l1 then 1 else - 1)"
  proof (cases "l2 < l1")
    case True
    then have "\<bar>l1 - l2\<bar> * \<bar>l1 - l2\<bar> + l1 * l1 - l2 * l2 = 2 * \<bar>l1 - l2\<bar> * l1"
      by (simp add: abs_mult_self_eq algebra_simps)
    with nz1 True show ?thesis by simp
  next
    case False
    then have "\<bar>l1 - l2\<bar> * \<bar>l1 - l2\<bar> + l1 * l1 - l2 * l2 = - (2 * \<bar>l1 - l2\<bar> * l1)"
      using assms(3) by (simp add: abs_mult_self_eq algebra_simps)
    with nz1 False show ?thesis by simp
  qed
  show ?thesis
    unfolding solveTriangle_def Let_def c1 c2 by simp
qed

lemma endEffector_pi:
  "endEffector rootPos l1 l2 \<lparr>angle1 = a, angle2 = pi\<rparr> =
     \<lparr>px = px rootPos + cos a * (l1 - l2), py = py rootPos + sin a * (l1 - l2)\<rparr>"
  by (simp add: endEffector_def getEndPoint_def algebra_simps)

text \<open>
  C5. \<open>solveIK\<close> returns no result exactly when the target lies less than \<open>0.1\<close> from the
  root; every other input gives an angle pair. The result is a function of the four
  arguments alone.
\<close>

theorem solveIK_none_iff:
  "(solveIK rootPos targetPos l1 l2 = None) = (distance rootPos targetPos < 1 / 10)
   \<and> (\<exists>r. solveIK rootPos targetPos l1 l2 = (if distance rootPos targetPos < 1 / 10 then None else Some r))"
  by (simp add: solveIK_def distance_def Let_def split: prod.splits)

text \<open>
  C6, as the code has it. When the target is at least \<open>0.1\<close> from the root and farther than
  \<open>l1 + l2\<close>, the limb is fully extended: the first angle is the bearing of the target and
  the second is \<open>0\<close>. At the reach boundary itself (\<open>l1 = l2 = 100\<close>, target \<open>200\<close> units along
  \<open>+x\<close>) the triangle solution is \<open>(0, 0)\<close> as well.
\<close>

theorem solveIK_too_far:
  "(1 / 10 \<le> distance rootPos targetPos \<and> l1 + l2 < distance rootPos targetPos \<longrightarrow>
      solveIK rootPos targetPos l1 l2 =
        Some \<lparr>angle1 = atan2 (py targetPos - py rootPos) (px targetPos - px rootPos), angle2 = 0\<rparr>)
   \<and> solveIK rootPos \<lparr>px = px rootPos + 200, py = py rootPos\<rparr> 100 100
        = Some \<lparr>angle1 = 0, angle2 = 0\<rparr>"
  by (simp add: solveIK_def distance_def Let_def solveTriangle_def)

theorem solveIK_too_far_witness:
  "1 / 10 \<le> distance \<lparr>px = 0, py = 0\<rparr> \<lparr>px = 0, py = 300\<rparr>
   \<and> (100::real) + 100 < distance \<lparr>px = 0, py = 0\<rparr> \<lparr>px = 0, py = 300\<rparr>
   \<and> solveIK \<lparr>px = 0, py = 0\<rparr> \<lparr>px = 0, py = 300\<rparr> 100 100 = Some \<lparr>angle1 = pi / 2, angle2 = 0\<rparr>"
  using solveIK_too_far [of "\<lparr>px = 0, py = 0\<rparr>" "\<lparr>px = 0, py = 300\<rparr>" 100 100]
  by (simp add: distance_def)

text \<open>C6 as the specification states it fails for a limb shorter than the threshold: a target \<open>0.05\<close> away
  is beyond the reach of two segments of length \<open>0.01\<close>, and the solver returns no result.\<close>

theorem solveIK_too_far_counterexample:
  "(1 / 100 :: real) + 1 / 100 < distance \<lparr>px = 0, py = 0\<rparr> \<lparr>px = 1 / 20, py = 0\<rparr>
   \<and> solveIK \<lparr>px = 0, py = 0\<rparr> \<lparr>px = 1 / 20, py = 0\<rparr> (1 / 100) (1 / 100) = None"
  by (simp add: solveIK_def distance_def Let_def)

text \<open>
  C7, as the code has it. For positive segment lengths and a target at least \<open>0.1\<close> but less
  than \<open>|l1 - l2|\<close> from the root, the solver moves the target away from the root along the
  root-to-target direction (by a factor greater than \<open>1\<close>) to distance \<open>|l1 - l2|\<close> and
  solves for that target: the result is the one for the moved target; it is the pair of
  the target's bearing (less half a turn when the second segment is the longer one) and
  \<open>pi\<close> (fully folded); and the two segments composed from the root end exactly at the moved
  target, at distance \<open>|l1 - l2|\<close> from the root.
\<close>

theorem solveIK_too_close:
  assumes "0 < l1" and "0 < l2"
    and "1 / 10 \<le> distance rootPos targetPos"
    and "distance rootPos targetPos < \<bar>l1 - l2\<bar>"
  shows "let scale = \<bar>l1 - l2\<bar> / distance rootPos targetPos;
             target' = \<lparr>px = px rootPos + (px targetPos - px rootPos) * scale,
                        py = py rootPos + (py targetPos - py rootPos) * scale\<rparr>;
             bearing = atan2 (py targetPos - py rootPos) (px targetPos - px rootPos);
             result = \<lparr>angle1 = (if l2 < l1 then bearing else bearing - pi), angle2 = pi\<rparr>
         in 1 < scale
          \<and> distance rootPos target' = \<bar>l1 - l2\<bar>
          \<and> solveIK rootPos target' l1 l2 = Some result
          \<and> solveIK rootPos targetPos l1 l2 = Some result
          \<and> endEffector rootPos l1 l2 result = target'"
proof -
  define dx where "dx = px targetPos - px rootPos"
  define dy where "dy = py targetPos - py rootPos"
  define d where "d = hypot dx dy"
  define m where "m = \<bar>l1 - l2\<bar>"
  define t' where "t' = \<lparr>px = px rootPos + dx * (m / d), py = py rootPos + dy * (m / d)\<rparr>"
  define b where "b = atan2 dy dx"
  define r where "r = \<lparr>angle1 = (if l2 < l1 then b else b - pi), angle2 = pi\<rparr>"
  have d: "distance rootPos targetPos = d"
    by (simp add: distance_def d_def dx_def dy_def)
  have dpos: "0 < d" and dm: "d < m" and d10: "\<not> d < 1 / 10"
    using assms d m_def by auto
  have mle: "m \<le> l1 + l2"
    using assms m_def by simp
  have ne: "l1 \<noteq> l2"
    using dpos dm m_def by auto
  have sc: "0 < m / d" "1 < m / d"
    using dpos dm by simp_all
  have nz: "dx \<noteq> 0 \<or> dy \<noteq> 0"
    using dpos by (auto simp: d_def)
  have dx': "px t' - px rootPos = dx * (m / d)" and dy': "py t' - py rootPos = dy * (m / d)"
    by (simp_all add: t'_def)
  have pt: "pushTarget rootPos dx dy d m = t'"
    by (simp add: pushTarget_def t'_def Let_def)
  have "hypot (dx * (m / d)) (dy * (m / d)) = hypot dx dy * (m / d)"
    using dpos dm by (intro hypot_scale) simp
  also have "\<dots> = m"
    using dpos by (simp add: d_def)
  finally have h': "hypot (dx * (m / d)) (dy * (m / d)) = m" .
  then have dist': "distance rootPos t' = m"
    by (simp add: distance_def dx' dy')
  have a: "atan2 (dy * (m / d)) (dx * (m / d)) = b"
    unfolding b_def using sc(1) by (rule atan2_scale)
  have "solveTriangle (dx * (m / d)) (dy * (m / d)) m l1 l2 =
          \<lparr>angle1 = (if l2 < l1 then atan2 (dy * (m / d)) (dx * (m / d))
                      else atan2 (dy * (m / d)) (dx * (m / d)) - pi), angle2 = pi\<rparr>"
    unfolding m_def using assms(1,2) ne by (rule solveTriangle_at_min_reach)
  then have tri: "solveTriangle (dx * (m / d)) (dy * (m / d)) m l1 l2 = r"
    by (simp only: a r_def)
  have lhs: "solveIK rootPos targetPos l1 l2 = Some r"
    using d10 dm mle dx' dy' tri
    by (simp add: solveIK_def Let_def dx_def[symmetric] dy_def[symmetric] d_def[symmetric]
        m_def[symmetric] pt)
  have rhs: "solveIK rootPos t' l1 l2 = Some r"
    using d10 dm mle h' tri by (simp add: solveIK_def Let_def dx' dy' m_def[symmetric])
  have cs: "cos b = dx / d" "sin b = dy / d"
    using cos_sin_atan2 [OF nz] by (simp_all add: b_def d_def)
  have cm: "cos b * m = dx * (m / d)" "sin b * m = dy * (m / d)"
    by (simp_all add: cs)
  have ee: "endEffector rootPos l1 l2 r = t'"
  proof (cases "l2 < l1")
    case True
    then have "l1 - l2 = m"
      by (simp add: m_def)
    then show ?thesis
      using True cm by (simp add: endEffector_pi r_def t'_def)
  next
    case False
    then have "l1 - l2 = - m"
      using ne by (simp add: m_def)
    moreover have "cos (b - pi) = - cos b" "sin (b - pi) = - sin b"
      by (simp_all add: cos_diff sin_diff)
    ultimately show ?thesis
      using False cm by (simp add: endEffector_pi r_def t'_def)
  qed
  show ?thesis
    unfolding Let_def d
    unfolding dx_def [symmetric] dy_def [symmetric] m_def [symmetric]
    unfolding b_def [symmetric] t'_def [symmetric]
    unfolding r_def [symmetric]
    using sc(2) dist' lhs rhs ee by blast
qed

text \<open>Segments of \<open>100\<close> and \<open>50\<close> and a target ten units straight below the root: the end
  effector is \<open>50\<close> units straight below the root.\<close>

theorem solveIK_too_close_witness:
  "(0::real) < 100 \<and> (0::real) < 50
   \<and> 1 / 10 \<le> distance \<lparr>px = 0, py = 0\<rparr> \<lparr>px = 0, py = 10\<rparr>
   \<and> distance \<lparr>px = 0, py = 0\<rparr> \<lparr>px = 0, py = 10\<rparr> < \<bar>100 - 50\<bar>
   \<and> solveIK \<lparr>px = 0, py = 0\<rparr> \<lparr>px = 0, py = 10\<rparr> 100 50 = Some \<lparr>angle1 = pi / 2, angle2 = pi\<rparr>
   \<and> endEffector \<lparr>px = 0, py = 0\<rparr> 100 50 \<lparr>angle1 = pi / 2, angle2 = pi\<rparr> = \<lparr>px = 0, py = 50\<rparr>
   \<and> distance \<lparr>px = 0, py = 0\<rparr> \<lparr>px = 0, py = 50\<rparr> = 50"
proof -
  have h1: "(0::real) < 100" and h2: "(0::real) < 50"
    by simp_all
  have h3: "1 / 10 \<le> distance \<lparr>px = 0, py = 0\<rparr> \<lparr>px = 0, py = 10\<rparr>"
    and h4: "distance \<lparr>px = 0, py = 0\<rparr> \<lparr>px = 0, py = 10\<rparr> < \<bar>100 - 50\<bar>"
    by (simp_all add: distance_def)
  show ?thesis
    using solveIK_too_close [OF h1 h2 h3 h4] h1 h2 h3 h4
    by (simp add: Let_def distance_def)
qed

text \<open>C7 as the specification states it fails for a length that is not positive: with
  \<open>l1 = 100\<close>, \<open>l2 = -50\<close> and a target \<open>100\<close> units away (less than \<open>|l1 - l2| = 150\<close>) the
  too-far test \<open>dist > l1 + l2\<close> comes first, the target is not moved, and the end effector is
  \<open>50\<close> units from the root.\<close>

theorem solveIK_too_close_counterexample:
  "1 / 10 \<le> distance \<lparr>px = 0, py = 0\<rparr> \<lparr>px = 100, py = 0\<rparr>
   \<and> distance \<lparr>px = 0, py = 0\<rparr> \<lparr>px = 100, py = 0\<rparr> < \<bar>100 - (- 50)\<bar>
   \<and> solveIK \<lparr>px = 0, py = 0\<rparr> \<lparr>px = 100, py = 0\<rparr> 100 (- 50) = Some \<lparr>angle1 = 0, angle2 = 0\<rparr>
   \<and> endEffector \<lparr>px = 0, py = 0\<rparr> 100 (- 50) \<lparr>angle1 = 0, angle2 = 0\<rparr> = \<lparr>px = 50, py = 0\<rparr>"
  by (simp add: solveIK_def distance_def Let_def endEffector_def getEndPoint_def)

section \<open>The simulation step\<close>

lemmas collide_defs = collide_def hitFloor_def hitCeiling_def hitRight_def hitLeft_def
  W_def H_def PARTICLE_RADIUS_def impactFalloutFactor_def Let_def

lemmas step_defs = updatePhysicsBody_def integrate_def solveConstraint_def movePos_def
  FRICTION_def GRAVITY_def STIFFNESS_def SOLVER_ITERATIONS_def eval_nat_numeral

text \<open>
  C2, at a failing input. A particle without mass, tied to a particle of mass \<open>1\<close> ten units
  away by a constraint of rest length five: one application of the constraint moves the
  massless particle by the whole correction \<open>3.75\<close>, and the other particle by the whole
  correction as well.
\<close>

theorem zero_mass_particle_moves:
  "solveConstraint pinnedPair pinnedConstraint =
     Inr [\<lparr>pid = Root, pos = \<lparr>px = 10375 / 100, py = 100\<rparr>, prevPos = \<lparr>px = 100, py = 100\<rparr>,
            mass = 0\<rparr>,
          \<lparr>pid = Torso, pos = \<lparr>px = 10625 / 100, py = 100\<rparr>, prevPos = \<lparr>px = 110, py = 100\<rparr>,
            mass = 1\<rparr>]"
  by (simp add: solveConstraint_def pinnedPair_def pinnedConstraint_def movePos_def STIFFNESS_def
      Let_def)

text \<open>
  C8, as the code has it. Let \<open>p\<close> be a particle after integration and constraint solving,
  and \<open>p'\<close> the same particle at the end of the step. If \<open>p\<close> is below the floor then \<open>p'\<close> is
  on the floor with \<open>prevPos.y = pos.y\<close>, and, unless \<open>p\<close> is also beyond a side wall, its
  \<open>pos.x\<close> is kept and its \<open>prevPos.x\<close> is lowered by \<open>0.15\<close> times the vertical velocity
  \<open>pos.y - prevPos.y\<close> of \<open>p\<close>. If \<open>p\<close> is above the ceiling then \<open>p'\<close> is on the ceiling with
  \<open>prevPos.y = pos.y\<close> and, unless \<open>p\<close> is beyond a side wall, unchanged \<open>x\<close> coordinates. If
  \<open>p\<close> is beyond a side wall then \<open>p'\<close> is on that wall with \<open>prevPos.x = pos.x\<close> (also when
  \<open>p\<close> is below the floor) and, unless \<open>p\<close> is below the floor or above the ceiling,
  unchanged \<open>y\<close> coordinates.
\<close>

theorem collision_response:
  assumes "solverLoop SOLVER_ITERATIONS (constraints body)
             (map (integrate (dt * dt)) (particles body)) = Inr ps"
    and "i < length ps"
  shows "\<exists>body'. updatePhysicsBody body dt = Inr body' \<and>
     (let p = ps ! i; p' = particles body' ! i; vy = py (pos p) - py (prevPos p) in
        (H - 5 < py (pos p) \<longrightarrow> py (pos p') = H - 5 \<and> py (prevPos p') = H - 5)
      \<and> (H - 5 < py (pos p) \<and> 5 \<le> px (pos p) \<and> px (pos p) \<le> W - 5 \<longrightarrow>
            px (pos p') = px (pos p) \<and> px (prevPos p') = px (prevPos p) - vy * (15 / 100))
      \<and> (py (pos p) < 5 \<longrightarrow> py (pos p') = 5 \<and> py (prevPos p') = 5)
      \<and> (py (pos p) < 5 \<and> 5 \<le> px (pos p) \<and> px (pos p) \<le> W - 5 \<longrightarrow>
            px (pos p') = px (pos p) \<and> px (prevPos p') = px (prevPos p))
      \<and> (W - 5 < px (pos p) \<longrightarrow> px (pos p') = W - 5 \<and> px (prevPos p') = W - 5)
      \<and> (W - 5 < px (pos p) \<and> 5 \<le> py (pos p) \<and> py (pos p) \<le> H - 5 \<longrightarrow>
            py (pos p') = py (pos p) \<and> py (prevPos p') = py (prevPos p))
      \<and> (px (pos p) < 5 \<longrightarrow> px (pos p') = 5 \<and> px (prevPos p') = 5)
      \<and> (px (pos p) < 5 \<and> 5 \<le> py (pos p) \<and> py (pos p) \<le> H - 5 \<longrightarrow>
            py (pos p') = py (pos p) \<and> py (prevPos p') = py (prevPos p)))"
proof -
  have u: "updatePhysicsBody body dt = Inr (body\<lparr>particles := map collide ps\<rparr>)"
    using assms(1) by (simp add: updatePhysicsBody_def Let_def)
  have n: "particles (body\<lparr>particles := map collide ps\<rparr>) ! i = collide (ps ! i)"
    using assms(2) by simp
  show ?thesis
    unfolding u by (rule exI [of _ "body\<lparr>particles := map collide ps\<rparr>"])
      (simp only: n, simp add: collide_defs)
qed

text \<open>Four particles, one for each side of the stage, stepped by a fiftieth of a second
  (gravity then adds one unit of fall): the first lands on the floor and slides, the others
  are stopped by the ceiling and the walls.\<close>

theorem collision_response_witness:
  "solverLoop SOLVER_ITERATIONS (constraints wallBody)
      (map (integrate (1 / 50 * (1 / 50))) (particles wallBody))
     = Inr [\<lparr>pid = Foot SideLeft, pos = \<lparr>px = 400, py = 8006 / 10\<rparr>,
              prevPos = \<lparr>px = 400, py = 790\<rparr>, mass = 1 / 2\<rparr>,
            \<lparr>pid = Head, pos = \<lparr>px = 400, py = 14 / 10\<rparr>,
              prevPos = \<lparr>px = 400, py = 10\<rparr>, mass = 3 / 2\<rparr>,
            \<lparr>pid = Hand SideRight, pos = \<lparr>px = 7996 / 10, py = 401\<rparr>,
              prevPos = \<lparr>px = 790, py = 400\<rparr>, mass = 1 / 2\<rparr>,
            \<lparr>pid = Hand SideLeft, pos = \<lparr>px = 4 / 10, py = 401\<rparr>,
              prevPos = \<lparr>px = 10, py = 400\<rparr>, mass = 1 / 2\<rparr>]
   \<and> updatePhysicsBody wallBody (1 / 50)
     = Inr (wallBody\<lparr>particles :=
         [\<lparr>pid = Foot SideLeft, pos = \<lparr>px = 400, py = 795\<rparr>,
            prevPos = \<lparr>px = 39841 / 100, py = 795\<rparr>, mass = 1 / 2\<rparr>,
          \<lparr>pid = Head, pos = \<lparr>px = 400, py = 5\<rparr>,
            prevPos = \<lparr>px = 400, py = 5\<rparr>, mass = 3 / 2\<rparr>,
          \<lparr>pid = Hand SideRight, pos = \<lparr>px = 795, py = 401\<rparr>,
            prevPos = \<lparr>px = 795, py = 400\<rparr>, mass = 1 / 2\<rparr>,
          \<lparr>pid = Hand SideLeft, pos = \<lparr>px = 5, py = 401\<rparr>,
            prevPos = \<lparr>px = 5, py = 400\<rparr>, mass = 1 / 2\<rparr>]\<rparr>)"
proof -
  let ?ps = "[\<lparr>pid = Foot SideLeft, pos = \<lparr>px = 400, py = 8006 / 10\<rparr>,
              prevPos = \<lparr>px = 400, py = 790\<rparr>, mass = 1 / 2\<rparr>,
            \<lparr>pid = Head, pos = \<lparr>px = 400, py = 14 / 10\<rparr>,
              prevPos = \<lparr>px = 400, py = 10\<rparr>, mass = 3 / 2\<rparr>,
            \<lparr>pid = Hand SideRight, pos = \<lparr>px = 7996 / 10, py = 401\<rparr>,
              prevPos = \<lparr>px = 790, py = 400\<rparr>, mass = 1 / 2\<rparr>,
            \<lparr>pid = Hand SideLeft, pos = \<lparr>px = 4 / 10, py = 401\<rparr>,
              prevPos = \<lparr>px = 10, py = 400\<rparr>, mass = 1 / 2\<rparr>]"
  have h1: "solverLoop SOLVER_ITERATIONS (constraints wallBody)
      (map (integrate (1 / 50 * (1 / 50))) (particles wallBody)) = Inr ?ps"
    by (simp add: wallBody_def step_defs)
  have h2: "0 < length ?ps"
    by simp
  have "updatePhysicsBody wallBody (1 / 50) = Inr (wallBody\<lparr>particles := map collide ?ps\<rparr>)"
    using collision_response [OF h1 h2] h1 by (simp add: updatePhysicsBody_def Let_def)
  then show ?thesis
    using h1 by (simp add: collide_defs)
qed

text \<open>C8 as the specification states it fails in a corner: a particle that crosses the floor and the
  right wall in the same step (vertical velocity \<open>10.6\<close> before the impact) ends the step
  with \<open>prevPos.x = pos.x\<close>, so nothing of its vertical velocity is left as horizontal
  velocity.\<close>

theorem collision_corner_counterexample:
  "integrate (1 / 50 * (1 / 50)) cornerParticle
     = \<lparr>pid = Root, pos = \<lparr>px = 7996 / 10, py = 8006 / 10\<rparr>, prevPos = \<lparr>px = 790, py = 790\<rparr>,
        mass = 3\<rparr>
   \<and> updatePhysicsBody cornerBody (1 / 50)
     = Inr (cornerBody\<lparr>particles :=
         [\<lparr>pid = Root, pos = \<lparr>px = 795, py = 795\<rparr>, prevPos = \<lparr>px = 795, py = 795\<rparr>,
            mass = 3\<rparr>]\<rparr>)"
  by (simp add: cornerBody_def cornerParticle_def step_defs collide_defs)

section \<open>The simulation step over numbers with infinities and NaN\<close>

lemmas collide_js_defs = collide_js_def hitFloor_js_def hitCeiling_js_def hitRight_js_def
  hitLeft_js_def W_def H_def PARTICLE_RADIUS_def impactFalloutFactor_def Let_def

lemmas step_js_defs = updatePhysicsBody_js_def integrate_js_def solveConstraint_js_def
  movePos_js_def jsub_def signedInf_def FRICTION_def GRAVITY_def STIFFNESS_def
  SOLVER_ITERATIONS_def eval_nat_numeral

lemma collide_js_x:
  "if jx (pos_js p) = NaN then jx (pos_js (collide_js p)) = NaN
   else \<exists>r. jx (pos_js (collide_js p)) = Num r \<and> 5 \<le> r \<and> r \<le> W - 5"
  by (cases "jx (pos_js p)") (auto simp: collide_js_defs)

lemma collide_js_y:
  "if jy (pos_js p) = NaN then jy (pos_js (collide_js p)) = NaN
   else \<exists>r. jy (pos_js (collide_js p)) = Num r \<and> 5 \<le> r \<and> r \<le> H - 5"
  by (cases "jy (pos_js p)") (auto simp: collide_js_defs)

lemma solveConstraint_js_length:
  "solveConstraint_js ps c = Inr ps' \<Longrightarrow> length ps' = length ps"
  by (auto simp: solveConstraint_js_def Let_def split: if_splits)

lemma solveConstraint_js_total:
  "particleAIndex_js c < length ps \<Longrightarrow> particleBIndex_js c < length ps
     \<Longrightarrow> \<exists>ps'. solveConstraint_js ps c = Inr ps'"
  by (simp add: solveConstraint_js_def Let_def)

lemma solveConstraints_js_total:
  "list_all (\<lambda>c. particleAIndex_js c < n \<and> particleBIndex_js c < n) cs \<Longrightarrow> length ps = n
     \<Longrightarrow> \<exists>ps'. solveConstraints_js cs ps = Inr ps' \<and> length ps' = n"
proof (induction cs arbitrary: ps)
  case Nil
  then show ?case by simp
next
  case (Cons c cs)
  then obtain ps1 where s: "solveConstraint_js ps c = Inr ps1"
    using solveConstraint_js_total [of c ps] by auto
  then have "length ps1 = n"
    using Cons.prems solveConstraint_js_length by auto
  with Cons s show ?case by simp
qed

lemma solverLoop_js_total:
  "list_all (\<lambda>c. particleAIndex_js c < n \<and> particleBIndex_js c < n) cs \<Longrightarrow> length ps = n
     \<Longrightarrow> \<exists>ps'. solverLoop_js k cs ps = Inr ps' \<and> length ps' = n"
proof (induction k arbitrary: ps)
  case 0
  then show ?case by simp
next
  case (Suc k)
  then obtain ps1 where s: "solveConstraints_js cs ps = Inr ps1" and l: "length ps1 = n"
    using solveConstraints_js_total by blast
  with Suc show ?case by simp
qed

text \<open>
  C10, as the code has it. A step on a body whose constraints name particles of its list
  returns, and at its end every particle coordinate that was a number when the collision
  phase began, finite or infinite, lies in the stage rectangle inset by five units
  (\<open>x\<close> in \<open>[5, W - 5]\<close>, \<open>y\<close> in \<open>[5, H - 5]\<close>, with \<open>W = H = 800\<close>), while a coordinate that was
  \<open>NaN\<close> when the collision phase began is still \<open>NaN\<close>. The statement is about the four
  tests of the collision phase, which only compare and assign, so it does not depend on how
  the earlier phases round or overflow.
\<close>

theorem updatePhysicsBody_inside_stage:
  assumes "wellIndexed_js body"
  shows "\<exists>ps body'.
      solverLoop_js SOLVER_ITERATIONS (constraints_js body)
        (map (integrate_js (jmul dt dt)) (particles_js body)) = Inr ps
    \<and> updatePhysicsBody_js body dt = Inr body'
    \<and> length (particles_js body') = length ps
    \<and> (\<forall>i < length ps.
          (if jx (pos_js (ps ! i)) = NaN then jx (pos_js (particles_js body' ! i)) = NaN
           else \<exists>r. jx (pos_js (particles_js body' ! i)) = Num r \<and> 5 \<le> r \<and> r \<le> W - 5)
        \<and> (if jy (pos_js (ps ! i)) = NaN then jy (pos_js (particles_js body' ! i)) = NaN
           else \<exists>r. jy (pos_js (particles_js body' ! i)) = Num r \<and> 5 \<le> r \<and> r \<le> H - 5))
    \<and> W = 800 \<and> H = 800"
proof -
  obtain ps where ps: "solverLoop_js SOLVER_ITERATIONS (constraints_js body)
      (map (integrate_js (jmul dt dt)) (particles_js body)) = Inr ps"
    using assms solverLoop_js_total [of "length (particles_js body)" "constraints_js body"
        "map (integrate_js (jmul dt dt)) (particles_js body)" SOLVER_ITERATIONS]
    by (auto simp: wellIndexed_js_def)
  then have u: "updatePhysicsBody_js body dt = Inr (body\<lparr>particles_js := map collide_js ps\<rparr>)"
    by (simp add: updatePhysicsBody_js_def Let_def)
  have "\<forall>i < length ps.
          (if jx (pos_js (ps ! i)) = NaN
           then jx (pos_js (particles_js (body\<lparr>particles_js := map collide_js ps\<rparr>) ! i)) = NaN
           else \<exists>r. jx (pos_js (particles_js (body\<lparr>particles_js := map collide_js ps\<rparr>) ! i)) = Num r
                    \<and> 5 \<le> r \<and> r \<le> W - 5)
        \<and> (if jy (pos_js (ps ! i)) = NaN
           then jy (pos_js (particles_js (body\<lparr>particles_js := map collide_js ps\<rparr>) ! i)) = NaN
           else \<exists>r. jy (pos_js (particles_js (body\<lparr>particles_js := map collide_js ps\<rparr>) ! i)) = Num r
                    \<and> 5 \<le> r \<and> r \<le> H - 5)"
    using collide_js_x collide_js_y by simp
  with ps u show ?thesis
    by (intro exI [of _ ps] exI [of _ "body\<lparr>particles_js := map collide_js ps\<rparr>"])
       (simp add: W_def H_def)
qed

text \<open>Two tied particles at rest, the second below the floor, stepped by a fiftieth of a
  second: both fall one unit, the constraint is at its rest length, and the second particle
  is put on the floor.\<close>

theorem updatePhysicsBody_inside_stage_witness:
  "wellIndexed_js tiedPair
   \<and> updatePhysicsBody_js tiedPair (Num (1 / 50)) =
     Inr (tiedPair\<lparr>particles_js :=
        [\<lparr>pid_js = Root, pos_js = \<lparr>jx = Num 100, jy = Num 101\<rparr>,
           prevPos_js = \<lparr>jx = Num 100, jy = Num 100\<rparr>, mass_js = Num 3\<rparr>,
         \<lparr>pid_js = Torso, pos_js = \<lparr>jx = Num 100, jy = Num 795\<rparr>,
           prevPos_js = \<lparr>jx = Num (9985 / 100), jy = Num 795\<rparr>, mass_js = Num 1\<rparr>]\<rparr>)"
proof -
  have w: "wellIndexed_js tiedPair"
    by (simp add: wellIndexed_js_def tiedPair_def)
  have "updatePhysicsBody_js tiedPair (Num (1 / 50)) =
     Inr (tiedPair\<lparr>particles_js :=
        [\<lparr>pid_js = Root, pos_js = \<lparr>jx = Num 100, jy = Num 101\<rparr>,
           prevPos_js = \<lparr>jx = Num 100, jy = Num 100\<rparr>, mass_js = Num 3\<rparr>,
         \<lparr>pid_js = Torso, pos_js = \<lparr>jx = Num 100, jy = Num 795\<rparr>,
           prevPos_js = \<lparr>jx = Num (9985 / 100), jy = Num 795\<rparr>, mass_js = Num 1\<rparr>]\<rparr>)"
    using updatePhysicsBody_inside_stage [OF w, of "Num (1 / 50)"]
    by (simp add: tiedPair_def step_js_defs collide_js_defs)
  with w show ?thesis
    by simp
qed

text \<open>C10 as the specification states it fails for a step that is not finite: with
  \<open>dt = Infinity\<close> the horizontal gravity term is \<open>0 * Infinity = NaN\<close>, the \<open>x\<close> coordinate of
  a particle at rest in the stage becomes \<open>NaN\<close>, no wall test holds of it, and the particle
  ends the step with \<open>pos.x = NaN\<close>.\<close>

theorem updatePhysicsBody_inside_stage_counterexample:
  "updatePhysicsBody_js restingOne PosInf =
     Inr (restingOne\<lparr>particles_js :=
        [\<lparr>pid_js = Root, pos_js = \<lparr>jx = NaN, jy = Num 795\<rparr>,
           prevPos_js = \<lparr>jx = NegInf, jy = Num 795\<rparr>, mass_js = Num 3\<rparr>]\<rparr>)"
  by (simp add: restingOne_def step_js_defs collide_js_defs)

section \<open>The skeleton\<close>

lemmas const_defs = W_def H_def HEAD_SIZE_UNIT_def LIMB_LENGTH_def HEAD_SIZE_def TORSO_HEIGHT_def
  WAIST_HEIGHT_def L_ARM_def L_FOREARM_def L_HAND_def L_THIGH_def L_SHIN_def L_FOOT_def

lemmas skeleton_defs = computeSkeleton_def armChain_def legChain_def storeBone_def Let_def

lemma default_joints: "joints (computeSkeleton getDefaultPose) = restJoints"
  by (simp add: skeleton_defs getEndPoint_def getDefaultPose_def baseAngle_def const_defs
      restJoints_def)

lemma cos_7pi2 [simp]: "cos (7 * pi / 2) = 0" and sin_7pi2 [simp]: "sin (7 * pi / 2) = - 1"
proof -
  have e: "7 * pi / 2 = (3 / 2 * pi) + 2 * pi"
    by simp
  show "cos (7 * pi / 2) = 0"
    unfolding e by (simp only: cos_periodic cos_3over2_pi)
  show "sin (7 * pi / 2) = - 1"
    unfolding e by (simp only: sin_periodic sin_3over2_pi)
qed

lemma headWound_joints: "joints (computeSkeleton headWoundPose) = restJoints"
  by (simp add: skeleton_defs getEndPoint_def getDefaultPose_def headWoundPose_def baseAngle_def
      const_defs restJoints_def)

text \<open>
  C3, as the code has it. The world angle of the root is \<open>0\<close> and the world angle of every
  other joint is its parent's world angle plus its base angle plus its local angle; the
  bone of every joint but the root carries that angle and runs from its start by its limb
  length along that angle. The joints are placed as follows: the root at the stage centre
  plus the offset; torso, waist and head at the parent joint plus their own length
  (\<open>HEAD_SIZE / 2.5\<close> for the head) along their own world angle; each shoulder \<open>48\<close> units and
  each hip \<open>29\<close> units from the parent joint, across the parent's direction; and elbow, hand,
  knee and foot at the parent joint plus the parent's limb length along the parent's world
  angle.
\<close>

theorem computeSkeleton_geometry:
  "worldAngles pose k =
     (case parent (hierarchy k) of
        None \<Rightarrow> 0
      | Some q \<Rightarrow> worldAngles pose q + baseAngle k + getPrevPoseAngle pose k)
   \<and> (case boneOf (computeSkeleton pose) k of
        None \<Rightarrow> k = Root
      | Some b \<Rightarrow> key b = k \<and> angle b = worldAngles pose k
                 \<and> endp b = getEndPoint (start b) (worldAngles pose k) (limbLength k))
   \<and> jointPos (computeSkeleton pose) Root
       = Some \<lparr>px = W / 2 + px (offset pose), py = H / 2 + py (offset pose)\<rparr>
   \<and> jointPos (computeSkeleton pose) Torso
       = Some (getEndPoint (the (jointPos (computeSkeleton pose) Root))
                 (worldAngles pose Torso) TORSO_HEIGHT)
   \<and> jointPos (computeSkeleton pose) Waist
       = Some (getEndPoint (the (jointPos (computeSkeleton pose) Root))
                 (worldAngles pose Waist) WAIST_HEIGHT)
   \<and> jointPos (computeSkeleton pose) Head
       = Some (getEndPoint (the (jointPos (computeSkeleton pose) Torso))
                 (worldAngles pose Head) (HEAD_SIZE / (5 / 2)))
   \<and> jointPos (computeSkeleton pose) (Shoulder s)
       = Some (getEndPoint (the (jointPos (computeSkeleton pose) Torso))
                 (worldAngles pose Torso + pi / 2) (if s = SideRight then 48 else - 48))
   \<and> jointPos (computeSkeleton pose) (Elbow s)
       = Some (getEndPoint (the (jointPos (computeSkeleton pose) (Shoulder s)))
                 (worldAngles pose (Shoulder s)) L_ARM)
   \<and> jointPos (computeSkeleton pose) (Hand s)
       = Some (getEndPoint (the (jointPos (computeSkeleton pose) (Elbow s)))
                 (worldAngles pose (Elbow s)) L_FOREARM)
   \<and> jointPos (computeSkeleton pose) (Hip s)
       = Some (getEndPoint (the (jointPos (computeSkeleton pose) Waist))
                 (worldAngles pose Waist - pi / 2) (if s = SideRight then 29 else - 29))
   \<and> jointPos (computeSkeleton pose) (Knee s)
       = Some (getEndPoint (the (jointPos (computeSkeleton pose) (Hip s)))
                 (worldAngles pose (Hip s)) L_THIGH)
   \<and> jointPos (computeSkeleton pose) (Foot s)
       = Some (getEndPoint (the (jointPos (computeSkeleton pose) (Knee s)))
                 (worldAngles pose (Knee s)) L_SHIN)"
proof -
  have angles: "worldAngles pose k =
     (case parent (hierarchy k) of
        None \<Rightarrow> 0
      | Some q \<Rightarrow> worldAngles pose q + baseAngle k + getPrevPoseAngle pose k)"
    by (cases k) simp_all
  have bone: "case boneOf (computeSkeleton pose) k of
        None \<Rightarrow> k = Root
      | Some b \<Rightarrow> key b = k \<and> angle b = worldAngles pose k
                 \<and> endp b = getEndPoint (start b) (worldAngles pose k) (limbLength k)"
  proof (cases k)
    case (Shoulder t) then show ?thesis by (cases t) (simp_all add: boneOf_def skeleton_defs)
  next
    case (Elbow t) then show ?thesis by (cases t) (simp_all add: boneOf_def skeleton_defs)
  next
    case (Hand t) then show ?thesis by (cases t) (simp_all add: boneOf_def skeleton_defs)
  next
    case (Hip t) then show ?thesis by (cases t) (simp_all add: boneOf_def skeleton_defs)
  next
    case (Knee t) then show ?thesis by (cases t) (simp_all add: boneOf_def skeleton_defs)
  next
    case (Foot t) then show ?thesis by (cases t) (simp_all add: boneOf_def skeleton_defs)
  qed (simp_all add: boneOf_def skeleton_defs)
  have places: "jointPos (computeSkeleton pose) Root
       = Some \<lparr>px = W / 2 + px (offset pose), py = H / 2 + py (offset pose)\<rparr>
   \<and> jointPos (computeSkeleton pose) Torso
       = Some (getEndPoint (the (jointPos (computeSkeleton pose) Root))
                 (worldAngles pose Torso) TORSO_HEIGHT)
   \<and> jointPos (computeSkeleton pose) Waist
       = Some (getEndPoint (the (jointPos (computeSkeleton pose) Root))
                 (worldAngles pose Waist) WAIST_HEIGHT)
   \<and> jointPos (computeSkeleton pose) Head
       = Some (getEndPoint (the (jointPos (computeSkeleton pose) Torso))
                 (worldAngles pose Head) (HEAD_SIZE / (5 / 2)))
   \<and> jointPos (computeSkeleton pose) (Shoulder s)
       = Some (getEndPoint (the (jointPos (computeSkeleton pose) Torso))
                 (worldAngles pose Torso + pi / 2) (if s = SideRight then 48 else - 48))
   \<and> jointPos (computeSkeleton pose) (Elbow s)
       = Some (getEndPoint (the (jointPos (computeSkeleton pose) (Shoulder s)))
                 (worldAngles pose (Shoulder s)) L_ARM)
   \<and> jointPos (computeSkeleton pose) (Hand s)
       = Some (getEndPoint (the (jointPos (computeSkeleton pose) (Elbow s)))
                 (worldAngles pose (Elbow s)) L_FOREARM)
   \<and> jointPos (computeSkeleton pose) (Hip s)
       = Some (getEndPoint (the (jointPos (computeSkeleton pose) Waist))
                 (worldAngles pose Waist - pi / 2) (if s = SideRight then 29 else - 29))
   \<and> jointPos (computeSkeleton pose) (Knee s)
       = Some (getEndPoint (the (jointPos (computeSkeleton pose) (Hip s)))
                 (worldAngles pose (Hip s)) L_THIGH)
   \<and> jointPos (computeSkeleton pose) (Foot s)
       = Some (getEndPoint (the (jointPos (computeSkeleton pose) (Knee s)))
                 (worldAngles pose (Knee s)) L_SHIN)"
    by (cases s) (simp_all add: jointPos_def skeleton_defs)
  from angles bone places show ?thesis
    by (intro conjI) simp_all
qed

text \<open>C3 as the specification states it fails at the default pose: the left shoulder joint lies \<open>48\<close> units
  beside the torso joint, not one arm length from it along the shoulder's world angle.\<close>

theorem computeSkeleton_counterexample:
  "jointPos (computeSkeleton getDefaultPose) (Shoulder SideLeft) = Some \<lparr>px = 352, py = 250\<rparr>
   \<and> jointPos (computeSkeleton getDefaultPose) Torso = Some \<lparr>px = 400, py = 250\<rparr>
   \<and> parent (hierarchy (Shoulder SideLeft)) = Some Torso
   \<and> getEndPoint \<lparr>px = 400, py = 250\<rparr> (worldAngles getDefaultPose (Shoulder SideLeft))
         (limbLength (Shoulder SideLeft)) = \<lparr>px = 400, py = 145\<rparr>"
  by (simp add: jointPos_def default_joints restJoints_def)
     (simp add: getEndPoint_def getDefaultPose_def baseAngle_def const_defs)

section \<open>The interpolator\<close>

lemma lerp_eq: "lerp a b t = a + (b - a) * t"
  by (simp add: lerp_def algebra_simps)

lemma lerpAngle_eq: "lerpAngle a b t = a + wrapClosed (b - a) * t"
  by (simp add: lerpAngle_def wrapClosed_def Let_def)

lemma interpolatePoses_poseJs:
  "interpolatePoses (poseJs a) (poseJs b) t = Inr (poseJs (shortArcInterpolate a b t))"
  by (simp add: interpolatePoses_def poseJs_def limbsJs_def startsWith_def shortArcInterpolate_def
      blendPoses_def blendLimbs_def lerp_eq lerpAngle_eq)

lemma wrapClosed_0 [simp]: "wrapClosed 0 = 0"
  using pi_gt_zero by (simp add: wrapClosed_def)

lemma wrapClosed_6: "wrapClosed 6 = 6 - 2 * pi"
  using pi_less_4 pi_gt_zero by (simp add: wrapClosed_def)

lemma half_turn_example: "(6 - 2 * pi) / 2 - 3 = - pi"
  by (simp add: field_simps)

text \<open>
  C4, as the code has it. For any two poses and any \<open>t\<close>, \<open>interpolatePoses\<close> gives the pose
  whose two offset coordinates are \<open>a + (b - a) * t\<close> and whose every angle is
  \<open>a + delta * t\<close>, where \<open>delta\<close> is \<open>b - a\<close>, less one full turn when it is greater than \<open>pi\<close>,
  plus one full turn when it is less than \<open>- pi\<close>, and \<open>b - a\<close> itself otherwise (also when it
  is exactly \<open>- pi\<close>). The torso going from \<open>-3\<close> to \<open>3\<close> at \<open>t = 0.5\<close> gives \<open>- pi\<close>, and
  \<open>offset.x\<close> going from \<open>0\<close> to \<open>100\<close> at \<open>t = 0.5\<close> gives \<open>50\<close>.
\<close>

theorem interpolatePoses_short_arc:
  "interpolatePoses (poseJs a) (poseJs b) t = Inr (poseJs (shortArcInterpolate a b t))
   \<and> interpolatePoses (poseJs (torsoPose (- 3))) (poseJs (torsoPose 3)) (1 / 2)
       = Inr (poseJs (torsoPose (- pi)))
   \<and> interpolatePoses (poseJs (shiftedPose 0)) (poseJs (shiftedPose 100)) (1 / 2)
       = Inr (poseJs (shiftedPose 50))"
  by (simp add: interpolatePoses_poseJs shortArcInterpolate_def blendPoses_def blendLimbs_def
      torsoPose_def shiftedPose_def getDefaultPose_def wrapClosed_6 half_turn_example)

text \<open>C4 as the specification states it fails when an angle goes back by exactly half a turn: from the
  default pose to the pose with the left shoulder at \<open>- pi / 2\<close>, the difference \<open>- pi\<close> is
  outside \<open>(-pi, pi]\<close> and the specification turns it into \<open>pi\<close>, giving \<open>pi\<close> at \<open>t = 0.5\<close>; the
  code keeps \<open>- pi\<close> and gives \<open>0\<close>.\<close>

theorem interpolatePoses_counterexample:
  "interpolatePoses (poseJs getDefaultPose) (poseJs armTurnedPose) (1 / 2)
     \<noteq> Inr (poseJs (specInterpolate getDefaultPose armTurnedPose (1 / 2)))"
proof -
  have "shoulder (left (shortArcInterpolate getDefaultPose armTurnedPose (1 / 2))) = 0"
    using pi_gt_zero
    by (simp add: shortArcInterpolate_def blendPoses_def blendLimbs_def armTurnedPose_def
        getDefaultPose_def wrapClosed_def)
  moreover have "shoulder (left (specInterpolate getDefaultPose armTurnedPose (1 / 2))) = pi"
    using pi_gt_zero
    by (simp add: specInterpolate_def blendPoses_def blendLimbs_def armTurnedPose_def
        getDefaultPose_def wrapHalfOpen_def)
  ultimately have "poseJs (shortArcInterpolate getDefaultPose armTurnedPose (1 / 2))
      \<noteq> poseJs (specInterpolate getDefaultPose armTurnedPose (1 / 2))"
    using pi_gt_zero by (auto simp: poseJs_def limbsJs_def)
  then show ?thesis
    by (simp add: interpolatePoses_poseJs)
qed

section \<open>From pose to body and back\<close>

lemma gpp_rest:
  assumes "joints (computeSkeleton pose) = restJoints"
  shows "getParticlePos (createPhysicsBodyFromPose pose) k = Inr (map_of restJoints k)"
proof -
  note u = getParticlePos_def createPhysicsBodyFromPose_def Let_def assms restJoints_def
    addParticle_def
  show ?thesis
  proof (cases k)
    case (Shoulder s) then show ?thesis by (cases s) (simp_all add: u)
  next
    case (Elbow s) then show ?thesis by (cases s) (simp_all add: u)
  next
    case (Hand s) then show ?thesis by (cases s) (simp_all add: u)
  next
    case (Hip s) then show ?thesis by (cases s) (simp_all add: u)
  next
    case (Knee s) then show ?thesis by (cases s) (simp_all add: u)
  next
    case (Foot s) then show ?thesis by (cases s) (simp_all add: u)
  qed (simp_all add: u)
qed

lemmas extract_defs = extractPoseFromPhysicsBody_def restJoints_def Let_def baseAngle_def
  shortestAngleDiff_def setLimbs_def W_def H_def getDefaultPose_def

text \<open>
  C1, at a failing input. The body built from the default pose, read back at once against
  the default pose, gives a pose in which eight angles have changed by a quarter turn:
  both shoulders are \<open>0\<close> (from \<open>pi / 2\<close> and \<open>- pi / 2\<close>), and the elbows, hips and knees are
  a quarter turn away from \<open>0\<close>.
\<close>

theorem round_trip_default:
  "extractPoseFromPhysicsBody (createPhysicsBodyFromPose getDefaultPose) getDefaultPose =
     Inr \<lparr>offset = \<lparr>px = 0, py = 0\<rparr>, torso = 0, waist = 0, head = 0,
          left = \<lparr>shoulder = 0, elbow = pi / 2, hand = 0, hip = pi / 2, knee = - (pi / 2), foot = 0\<rparr>,
          right = \<lparr>shoulder = 0, elbow = - (pi / 2), hand = 0, hip = - (pi / 2), knee = pi / 2,
                   foot = 0\<rparr>\<rparr>
   \<and> shoulder (left getDefaultPose) = pi / 2"
proof -
  define body where "body = createPhysicsBodyFromPose getDefaultPose"
  have gpp: "getParticlePos body k = Inr (map_of restJoints k)" for k
    unfolding body_def using default_joints by (rule gpp_rest)
  show ?thesis
    unfolding body_def [symmetric] by (simp add: gpp extract_defs)
qed

text \<open>
  C9, at a failing input. For the default pose with the head wound up by two full turns
  (\<open>4 * pi\<close>) and the body built from it, the head angle written back is \<open>2 * pi\<close>: it differs
  from the previous angle by a full turn, more than \<open>pi\<close>.
\<close>

theorem wound_head_extraction:
  "extractPoseFromPhysicsBody (createPhysicsBodyFromPose headWoundPose) headWoundPose =
     Inr \<lparr>offset = \<lparr>px = 0, py = 0\<rparr>, torso = 0, waist = 0, head = 2 * pi,
          left = \<lparr>shoulder = 0, elbow = pi / 2, hand = 0, hip = pi / 2, knee = - (pi / 2), foot = 0\<rparr>,
          right = \<lparr>shoulder = 0, elbow = - (pi / 2), hand = 0, hip = - (pi / 2), knee = pi / 2,
                   foot = 0\<rparr>\<rparr>
   \<and> head headWoundPose = 4 * pi
   \<and> pi < \<bar>2 * pi - 4 * pi\<bar>"
proof -
  define body where "body = createPhysicsBodyFromPose headWoundPose"
  have gpp: "getParticlePos body k = Inr (map_of restJoints k)" for k
    unfolding body_def using headWound_joints by (rule gpp_rest)
  show ?thesis
    unfolding body_def [symmetric] by (simp add: gpp extract_defs headWoundPose_def)
qed

end
